theory Spec2Isabelle
  imports Complex_Main "HOL-Library.Sublist"
begin

section \<open>The prompt library, as the flows use it\<close>

text \<open>What \<^verbatim>\<open>confirm\<close> of the prompt library resolves with: the user's yes or no, or
  the library's cancel symbol. The symbol is truthy.\<close>

datatype confirm_response = Answered bool | Cancelled

fun response_truthy :: "confirm_response \<Rightarrow> bool" where
  "response_truthy (Answered b) = b"
| "response_truthy Cancelled = True"

text \<open>
  The contract of the prompt library's \<^verbatim>\<open>text({ validate })\<close>: each submitted value
  goes through \<^verbatim>\<open>validate\<close>; a returned message is shown and the prompt asks again; the
  prompt resolves with the first submitted value for which \<^verbatim>\<open>validate\<close> returns
  nothing. The argument is what the user submits, in order; \<open>None\<close> means the user never
  submits an acceptable value, so the prompt does not resolve.
\<close>

fun text_prompt :: "(string \<Rightarrow> string option) \<Rightarrow> string list \<Rightarrow> string option" where
  "text_prompt validate [] = None"
| "text_prompt validate (v # rest) =
     (case validate v of None \<Rightarrow> Some v | Some message \<Rightarrow> text_prompt validate rest)"

text \<open>The messages the prompt shows before it resolves.\<close>

fun text_prompt_messages :: "(string \<Rightarrow> string option) \<Rightarrow> string list \<Rightarrow> string list" where
  "text_prompt_messages validate [] = []"
| "text_prompt_messages validate (v # rest) =
     (case validate v of None \<Rightarrow> [] | Some message \<Rightarrow> message # text_prompt_messages validate rest)"

section \<open>Create flow: template descriptors and directory resolution (create.ts)\<close>

text \<open>
  \<^verbatim>\<open>type TemplateVariant = 'basic' | 'full'\<close>
\<close>

datatype TemplateVariant = Basic | Full

datatype TemplateType = Typescript | React

text \<open>
  The \<^verbatim>\<open>variants\<close> and \<^verbatim>\<open>monorepo\<close> fields of \<^verbatim>\<open>Template\<close> have the same
  shape, \<^verbatim>\<open>{ basic?: { dir: string }, full: { dir: string } }\<close>. The one-field object
  \<^verbatim>\<open>{ dir }\<close> is kept as its \<^verbatim>\<open>dir\<close> string; an absent \<^verbatim>\<open>basic\<close> is \<open>None\<close>.
\<close>

record VariantDirs =
  basic :: "string option"
  full :: string

record Template =
  ttype :: TemplateType
  defaultName :: string
  name :: string
  description :: string
  variants :: VariantDirs
  monorepo :: "VariantDirs option"
  placeholders :: "(string \<times> string) list"

definition DEFAULT_PLACEHOLDERS :: "(string \<times> string) list" where
  "DEFAULT_PLACEHOLDERS =
     [(''GITHUB_USERNAME'', ''username''),
      (''GITHUB_REPO'', ''repo-name''),
      (''MONOREPO_FIRST_PACKAGE'', ''package-1'')]"

definition TEMPLATES :: "Template list" where
  "TEMPLATES =
     [\<lparr>ttype = Typescript, defaultName = ''my-ts-lib'', name = ''TypeScript Library'',
       description = ''A modern TypeScript library template'',
       variants = \<lparr>basic = Some ''ts-lib-basic'', full = ''ts-lib''\<rparr>,
       monorepo = Some \<lparr>basic = Some ''ts-lib-monorepo-basic'', full = ''ts-lib-monorepo''\<rparr>,
       placeholders = DEFAULT_PLACEHOLDERS @ [(''DEFAULT_NAME'', ''my-ts-lib'')]\<rparr>,
      \<lparr>ttype = React, defaultName = ''my-react-lib'', name = ''React Library'',
       description = ''A modern React component library template'',
       variants = \<lparr>basic = Some ''react-lib-basic'', full = ''react-lib''\<rparr>,
       monorepo = None,
       placeholders = DEFAULT_PLACEHOLDERS @ [(''DEFAULT_NAME'', ''my-react-lib'')]\<rparr>]"

text \<open>\<^verbatim>\<open>m[selectedVariant]?.dir\<close>: the directory under the variant key, \<open>None\<close> for
  \<^verbatim>\<open>undefined\<close>.\<close>

fun variantDir :: "VariantDirs \<Rightarrow> TemplateVariant \<Rightarrow> string option" where
  "variantDir m Basic = basic m"
| "variantDir m Full = Some (full m)"

text \<open>JavaScript's \<^verbatim>\<open>a || b\<close> on a string-or-undefined \<open>a\<close>: \<^verbatim>\<open>undefined\<close> and the
  empty string are both falsy, so both give \<open>b\<close>.\<close>

fun str_or :: "string option \<Rightarrow> string \<Rightarrow> string" where
  "str_or None b = b"
| "str_or (Some a) b = (if a = [] then b else a)"

text \<open>
  \<^verbatim>\<open>
  const getTemplateDir = (): string => {
    if (useMonorepo && template.monorepo) {
      return template.monorepo[selectedVariant]?.dir || template.monorepo.full.dir
    }
    return template.variants[selectedVariant]?.dir || template.variants.full.dir
  }
  \<close>
  The closure's captured variables are the arguments here.
\<close>

definition getTemplateDir :: "Template \<Rightarrow> TemplateVariant \<Rightarrow> bool \<Rightarrow> string" where
  "getTemplateDir template selectedVariant useMonorepo =
     (case (if useMonorepo then monorepo template else None) of
        Some m \<Rightarrow> str_or (variantDir m selectedVariant) (full m)
      | None \<Rightarrow> str_or (variantDir (variants template) selectedVariant)
                  (full (variants template)))"

text \<open>The fallback rule in the specification's words: the mapping's entry for the
  variant, or the \<open>full\<close> entry when that variant key is absent.\<close>

definition spec_lookup :: "VariantDirs \<Rightarrow> TemplateVariant \<Rightarrow> string" where
  "spec_lookup m v = (case variantDir m v of Some d \<Rightarrow> d | None \<Rightarrow> full m)"

text \<open>The mapping the rule consults: the monorepo mapping if monorepo was chosen and the
  descriptor defines one, the variant mapping otherwise.\<close>

definition chosenMapping :: "Template \<Rightarrow> bool \<Rightarrow> VariantDirs" where
  "chosenMapping template useMonorepo =
     (case monorepo template of
        Some m \<Rightarrow> if useMonorepo then m else variants template
      | None \<Rightarrow> variants template)"

definition spec_templateDir :: "Template \<Rightarrow> TemplateVariant \<Rightarrow> bool \<Rightarrow> string" where
  "spec_templateDir template v useMonorepo = spec_lookup (chosenMapping template useMonorepo) v"

text \<open>A descriptor is well formed when no directory name under a \<^verbatim>\<open>basic\<close> key is
  the empty string, as in every descriptor of \<open>TEMPLATES\<close>.\<close>

definition basicDirsNamed :: "Template \<Rightarrow> bool" where
  "basicDirsNamed template =
     (basic (variants template) \<noteq> Some []
      \<and> (case monorepo template of None \<Rightarrow> True | Some m \<Rightarrow> basic m \<noteq> Some []))"

section \<open>Create flow: the project name and the resolved scaffold (create.ts)\<close>

text \<open>What the create flow finds: the working directory, \<^verbatim>\<open>path.join\<close>, and which
  paths \<^verbatim>\<open>fsSync.accessSync\<close> can reach.\<close>

record create_env =
  cwd :: string
  joinPaths :: "string \<Rightarrow> string \<Rightarrow> string"
  accessible :: "string \<Rightarrow> bool"

text \<open>
  \<^verbatim>\<open>
  export function pathExistsSync(filePath: string): boolean {
    try { fsSync.accessSync(filePath); return true } catch { return false }
  }
  function getProjectPath(projectName: string): string {
    return path.join(process.cwd(), projectName)
  }
  \<close>
\<close>

definition pathExistsSync :: "create_env \<Rightarrow> string \<Rightarrow> bool" where
  "pathExistsSync env filePath = accessible env filePath"

definition getProjectPath :: "create_env \<Rightarrow> string \<Rightarrow> string" where
  "getProjectPath env projectName = joinPaths env (cwd env) projectName"

text \<open>
  The \<^verbatim>\<open>validate\<close> callback of the project-name prompt:
  \<^verbatim>\<open>
    if (!value) { return 'Project name is required' }
    if (value.includes(' ')) { return 'Project name cannot contain spaces' }
    if (pathExistsSync(getProjectPath(value))) { return 'Project already exists' }
  \<close>
\<close>

definition validateProjectName :: "create_env \<Rightarrow> string \<Rightarrow> string option" where
  "validateProjectName env v =
     (if v = [] then Some ''Project name is required''
      else if CHR '' '' \<in> set v then Some ''Project name cannot contain spaces''
      else if pathExistsSync env (getProjectPath env v) then Some ''Project already exists''
      else None)"

text \<open>
  \<^verbatim>\<open>const projectName = projectNameFromCli || ((await text({ ..., validate })) as string)\<close>:
  a non-empty positional argument is taken as it is; otherwise the prompt is asked.
  \<open>None\<close>: the prompt does not resolve.
\<close>

definition resolveProjectName :: "create_env \<Rightarrow> string option \<Rightarrow> string list \<Rightarrow> string option" where
  "resolveProjectName env projectNameFromCli submitted =
     (case projectNameFromCli of
        Some cliName \<Rightarrow>
          if cliName \<noteq> [] then Some cliName
          else text_prompt (validateProjectName env) submitted
      | None \<Rightarrow> text_prompt (validateProjectName env) submitted)"

text \<open>The user's answers in the create flow, up to the project name: the selected
  template type (\<open>None\<close> when the select resolves with no template type), the variant,
  the monorepo confirmation, and what is submitted to the project-name prompt.\<close>

record create_answers =
  selectedTemplateType :: "TemplateType option"
  variantAnswer :: TemplateVariant
  monorepoAnswer :: confirm_response
  projectNameSubmitted :: "string list"

text \<open>What the flow has resolved when it starts its tasks: the download copies
  \<^verbatim>\<open>github:bunup/templates/${templateDir}\<close> into \<^verbatim>\<open>projectPath\<close>.\<close>

record scaffold =
  scaffoldTemplate :: Template
  selectedVariant :: TemplateVariant
  useMonorepo :: bool
  projectName :: string
  projectPath :: string
  templateDir :: string

datatype create_outcome = InvalidTemplate | AwaitingName | Proceeds scaffold

text \<open>
  \<^verbatim>\<open>createProject\<close> up to the resolution of the template directory; the descriptor list,
  the constant \<^verbatim>\<open>TEMPLATES\<close> in the source, is an argument:
  \<^verbatim>\<open>
    const template = TEMPLATES.find((t) => t.type === selectedTemplateType)
    if (!template) { cancel('Invalid template'); process.exit(1) }
    let selectedVariant: TemplateVariant = 'full'
    if (template.variants.basic) { selectedVariant = (await select(...)) as TemplateVariant }
    let useMonorepo = false
    if (template.monorepo) { useMonorepo = (await confirm(...)) as boolean }
    const projectName = projectNameFromCli || ((await text(...)) as string)
    const projectPath = getProjectPath(projectName)
    ...
    const templateDir = getTemplateDir()
  \<close>
  The prompts for the first package name and the GitHub identity, which come in between,
  have no validation and do not enter the resolved values kept here.
\<close>

definition createProject ::
  "Template list \<Rightarrow> create_env \<Rightarrow> string option \<Rightarrow> create_answers \<Rightarrow> create_outcome" where
  "createProject templates env projectNameFromCli ans =
     (case (case selectedTemplateType ans of
              None \<Rightarrow> None
            | Some ty \<Rightarrow> find (\<lambda>t. ttype t = ty) templates) of
        None \<Rightarrow> InvalidTemplate
      | Some template \<Rightarrow>
          (let variant = (if basic (variants template) \<noteq> None then variantAnswer ans else Full);
               mono = (if monorepo template \<noteq> None then response_truthy (monorepoAnswer ans)
                       else False)
           in case resolveProjectName env projectNameFromCli (projectNameSubmitted ans) of
                None \<Rightarrow> AwaitingName
              | Some pname \<Rightarrow>
                  Proceeds \<lparr>scaffoldTemplate = template, selectedVariant = variant,
                            useMonorepo = mono, projectName = pname,
                            projectPath = getProjectPath env pname,
                            templateDir = getTemplateDir template variant mono\<rparr>))"

text \<open>An environment for examples: paths are joined with a slash, and only
  \<^verbatim>\<open>/home/dev/taken\<close> exists.\<close>

definition example_env :: create_env where
  "example_env =
     \<lparr>cwd = ''/home/dev'', joinPaths = (\<lambda>a b. a @ ''/'' @ b),
      accessible = (\<lambda>p. p = ''/home/dev/taken'')\<rparr>"

section \<open>Init flow: the script entries to install (init.ts)\<close>

text \<open>
  A \<^verbatim>\<open>Record<string, string>\<close> literal, as the list of its entries in key order.
  \<^verbatim>\<open>
  function createWorkspaceBuildScripts(): Record<string, string> {
    return { build: 'bunup', dev: 'bunup --watch' }
  }
  function createBuildScripts(): Record<string, string> {
    return { build: 'bunup', dev: 'bunup --watch' }
  }
  \<close>
\<close>

definition createWorkspaceBuildScripts :: "(string \<times> string) list" where
  "createWorkspaceBuildScripts = [(''build'', ''bunup''), (''dev'', ''bunup --watch'')]"

definition createBuildScripts :: "(string \<times> string) list" where
  "createBuildScripts = [(''build'', ''bunup''), (''dev'', ''bunup --watch'')]"

text \<open>Which of the two the init flow installs: \<^verbatim>\<open>initializeWorkspace\<close> calls
  \<^verbatim>\<open>handleWorkspaceBuildScripts\<close>, \<^verbatim>\<open>initializeSinglePackage\<close> calls
  \<^verbatim>\<open>handleBuildScripts\<close>.\<close>

definition scriptsForMode :: "bool \<Rightarrow> (string \<times> string) list" where
  "scriptsForMode shouldSetupWorkspace =
     (if shouldSetupWorkspace then createWorkspaceBuildScripts else createBuildScripts)"

section \<open>JSON values and JavaScript objects\<close>

text \<open>
  The manifest is what \<^verbatim>\<open>loadPackageJson\<close> returns in \<^verbatim>\<open>data\<close>: the parsed
  \<^verbatim>\<open>package.json\<close>, typed \<^verbatim>\<open>Record<string, unknown> | null\<close>. A parsed JSON value is
  \<^verbatim>\<open>null\<close>, a boolean, a number (kept as its numeric value; a literal beyond the
  range of a double, which parses to an infinity, is not represented), a string (one
  \<open>char\<close> per code unit), an array, or an object. An object is the list of its own
  properties in the order JavaScript enumerates them (\<^verbatim>\<open>Object.keys\<close>, spread,
  \<^verbatim>\<open>JSON.stringify\<close>): array-index keys first, in ascending numeric order, then the
  other keys in the order they were created.
\<close>

datatype json =
    JNull
  | JBool bool
  | JNum rat
  | JStr string
  | JArr "json list"
  | JObj "(string \<times> json) list"

type_synonym props = "(string \<times> json) list"

text \<open>Truthiness of a property read; \<open>None\<close> is \<^verbatim>\<open>undefined\<close>. The falsy values are
  \<^verbatim>\<open>undefined\<close>, \<^verbatim>\<open>null\<close>, \<^verbatim>\<open>false\<close>, zero and the empty string.\<close>

fun truthy :: "json option \<Rightarrow> bool" where
  "truthy None = False"
| "truthy (Some JNull) = False"
| "truthy (Some (JBool b)) = b"
| "truthy (Some (JNum q)) = (q \<noteq> 0)"
| "truthy (Some (JStr s)) = (s \<noteq> [])"
| "truthy (Some (JArr xs)) = True"
| "truthy (Some (JObj ps)) = True"

text \<open>Decimal numerals, for array-index keys: a key is an array index when it is the
  canonical decimal form of an integer below \<open>2^32 - 1\<close>.\<close>

definition digit_char :: "nat \<Rightarrow> char" where
  "digit_char d = ''0123456789'' ! d"

fun showNat :: "nat \<Rightarrow> string" where
  "showNat n =
     (if n < 10 then [digit_char n]
      else showNat (n div 10) @ [digit_char (n mod 10)])"

definition numeric_value :: "string \<Rightarrow> nat" where
  "numeric_value s = foldl (\<lambda>a c. 10 * a + (of_char c - 48)) 0 s"

definition is_array_index :: "string \<Rightarrow> bool" where
  "is_array_index s = (showNat (numeric_value s) = s \<and> numeric_value s < 4294967295)"

text \<open>Key \<open>a\<close> may be enumerated before key \<open>b\<close>: an array index comes only after
  smaller array indices.\<close>

definition key_before :: "string \<Rightarrow> string \<Rightarrow> bool" where
  "key_before a b =
     (if is_array_index b then is_array_index a \<and> numeric_value a < numeric_value b
      else True)"

text \<open>The representation invariant of an object: keys are distinct and in enumeration
  order. Every object JavaScript builds satisfies it.\<close>

definition js_canonical :: "props \<Rightarrow> bool" where
  "js_canonical ps = (distinct (map fst ps) \<and> sorted_wrt key_before (map fst ps))"

text \<open>Creating a new array-index property: it goes after the smaller array indices.\<close>

fun insert_index :: "string \<Rightarrow> json \<Rightarrow> props \<Rightarrow> props" where
  "insert_index k v [] = [(k, v)]"
| "insert_index k v ((a, w) # rest) =
     (if is_array_index a \<and> numeric_value a < numeric_value k
      then (a, w) # insert_index k v rest
      else (k, v) # (a, w) # rest)"

text \<open>Defining a data property on an ordinary object (an object-literal entry, or one
  step of a spread): an existing key keeps its place and takes the new value; a new key
  is created, at the end unless it is an array index.\<close>

definition obj_set :: "props \<Rightarrow> string \<Rightarrow> json \<Rightarrow> props" where
  "obj_set ps k v =
     (if k \<in> set (map fst ps) then map (\<lambda>(a, w). if a = k then (a, v) else (a, w)) ps
      else if is_array_index k then insert_index k v ps
      else ps @ [(k, v)])"

text \<open>The own enumerable properties that a spread copies: an object's properties, an
  array's elements and a string's characters under their indices, nothing for
  \<^verbatim>\<open>null\<close>, booleans and numbers.\<close>

fun own_props :: "json \<Rightarrow> props" where
  "own_props (JObj ps) = ps"
| "own_props (JArr xs) = zip (map showNat [0..<length xs]) xs"
| "own_props (JStr s) = zip (map showNat [0..<length s]) (map (\<lambda>c. JStr [c]) s)"
| "own_props v = []"

text \<open>\<^verbatim>\<open>{ ...target, ...src }\<close>: the properties of \<open>src\<close> are defined on the object
  built so far, in enumeration order.\<close>

definition spread :: "props \<Rightarrow> json \<Rightarrow> props" where
  "spread target src = foldl (\<lambda>acc (k, v). obj_set acc k v) target (own_props src)"

text \<open>A property read \<^verbatim>\<open>o[k]\<close> (or \<^verbatim>\<open>o?.k\<close>, which gives \<^verbatim>\<open>undefined\<close> on
  \<^verbatim>\<open>null\<close>), for the keys this program reads (\<^verbatim>\<open>scripts\<close>, \<^verbatim>\<open>build\<close>, \<^verbatim>\<open>dev\<close>):
  none of them is found on a prototype, so the read sees own properties only.\<close>

definition get_prop :: "json \<Rightarrow> string \<Rightarrow> json option" where
  "get_prop v k = map_of (own_props v) k"

text \<open>A \<^verbatim>\<open>Record<string, string>\<close> literal as an object value.\<close>

definition record_json :: "(string \<times> string) list \<Rightarrow> json" where
  "record_json r = JObj (map (\<lambda>(k, v). (k, JStr v)) r)"

section \<open>Init flow: merging the build scripts into the manifest (init.ts)\<close>

text \<open>What a run of the init flow does to the outside, besides asking for the
  collection answers: the banner, log lines, the confirmation of the script merge, file
  writes, the install command and the closing summary (with its \<^verbatim>\<open>isWorkspace\<close>
  argument). The text that \<^verbatim>\<open>JSON.stringify(value, null, indent)\<close> produces is kept
  as the value and the indent.\<close>

datatype content = Text string | JsonText json nat

datatype effect =
    Intro
  | LogError string
  | LogInfo string
  | ConfirmPrompt string
  | BunWrite string content
  | Exec string
  | ShowSuccessOutro bool

text \<open>
  \<^verbatim>\<open>
  export function formatListWithAnd(list: string[]): string {
    return new Intl.ListFormat('en-US', { style: 'long', type: 'conjunction' }).format(list)
  }
  \<close>
  English long conjunction: \<open>a\<close>; \<open>a and b\<close>; \<open>a, b, and c\<close>.
\<close>

fun formatListWithAnd :: "string list \<Rightarrow> string" where
  "formatListWithAnd [] = []"
| "formatListWithAnd [a] = a"
| "formatListWithAnd [a, b] = a @ '' and '' @ b"
| "formatListWithAnd (a # b # c # rest) =
     concat (map (\<lambda>x. x @ '', '') (butlast (a # b # c # rest)))
       @ ''and '' @ last (a # b # c # rest)"

text \<open>\<^verbatim>\<open>(packageJsonConfig?.scripts ?? {}) as Record<string, string>\<close>: the cast checks
  nothing, so the value is whatever the manifest holds under \<^verbatim>\<open>scripts\<close>.\<close>

definition existingScriptsOf :: "json \<Rightarrow> json" where
  "existingScriptsOf packageJsonConfig =
     (case get_prop packageJsonConfig ''scripts'' of
        None \<Rightarrow> JObj []
      | Some JNull \<Rightarrow> JObj []
      | Some v \<Rightarrow> v)"

text \<open>\<^verbatim>\<open>Object.keys(newScripts).filter((script) => existingScripts[script])\<close>\<close>

definition conflictingScripts :: "json \<Rightarrow> (string \<times> string) list \<Rightarrow> string list" where
  "conflictingScripts existingScripts newScripts =
     filter (\<lambda>script. truthy (get_prop existingScripts script)) (map fst newScripts)"

text \<open>\<^verbatim>\<open>{ ...existingScripts, ...newScripts }\<close>\<close>

definition mergedScripts :: "json \<Rightarrow> (string \<times> string) list \<Rightarrow> props" where
  "mergedScripts existingScripts newScripts =
     spread (spread [] existingScripts) (record_json newScripts)"

text \<open>\<^verbatim>\<open>{ ...packageJsonConfig, scripts: { ...existingScripts, ...newScripts } }\<close>\<close>

definition updatedConfig :: "json \<Rightarrow> (string \<times> string) list \<Rightarrow> json" where
  "updatedConfig packageJsonConfig newScripts =
     JObj (obj_set (spread [] packageJsonConfig) ''scripts''
             (JObj (mergedScripts (existingScriptsOf packageJsonConfig) newScripts)))"

definition overrideMessage :: "string list \<Rightarrow> string" where
  "overrideMessage conflicting =
     ''The '' @ formatListWithAnd conflicting @ '' ''
       @ (if length conflicting > 1 then ''scripts already exist'' else ''script already exists'')
       @ '' in package.json. Override ''
       @ (if length conflicting > 1 then ''them'' else ''it'') @ ''?''"

text \<open>
  \<^verbatim>\<open>handleBuildScripts\<close> and \<^verbatim>\<open>handleWorkspaceBuildScripts\<close> have the same body but for
  the function that supplies \<^verbatim>\<open>newScripts\<close>:
  \<^verbatim>\<open>
    const { data: packageJsonConfig } = await loadPackageJson()
    const existingScripts = (packageJsonConfig?.scripts ?? {}) as Record<string, string>
    const newScripts = createBuildScripts()
    const conflictingScripts = Object.keys(newScripts).filter(
      (script) => existingScripts[script])
    if (conflictingScripts.length > 0) {
      const shouldOverride = await confirm({ message: ..., initialValue: true })
      if (!shouldOverride) {
        log.info('Skipped adding build scripts to avoid conflicts.')
        return
      }
    }
    const updatedConfig = {
      ...packageJsonConfig,
      scripts: { ...existingScripts, ...newScripts },
    }
    await Bun.write(packageJsonPath, JSON.stringify(updatedConfig, null, 2))
  \<close>
  The manifest the loader returns and the user's answer to the confirmation (consulted
  only if it is asked) are arguments; the result is what the run did, in order.
\<close>

definition mergeBuildScripts ::
  "(string \<times> string) list \<Rightarrow> string \<Rightarrow> json \<Rightarrow> confirm_response \<Rightarrow> effect list" where
  "mergeBuildScripts newScripts packageJsonPath packageJsonConfig shouldOverride =
     (let existingScripts = existingScriptsOf packageJsonConfig;
          conflicting = conflictingScripts existingScripts newScripts;
          write = [BunWrite packageJsonPath
                     (JsonText (updatedConfig packageJsonConfig newScripts) 2)]
      in if length conflicting > 0
         then ConfirmPrompt (overrideMessage conflicting)
                # (if \<not> response_truthy shouldOverride
                   then [LogInfo ''Skipped adding build scripts to avoid conflicts.'']
                   else write)
         else write)"

definition handleBuildScripts :: "string \<Rightarrow> json \<Rightarrow> confirm_response \<Rightarrow> effect list" where
  "handleBuildScripts = mergeBuildScripts createBuildScripts"

definition handleWorkspaceBuildScripts ::
  "string \<Rightarrow> json \<Rightarrow> confirm_response \<Rightarrow> effect list" where
  "handleWorkspaceBuildScripts = mergeBuildScripts createWorkspaceBuildScripts"

text \<open>The files after a run: each write replaces the file's content.\<close>

fun apply_effect :: "(string \<rightharpoonup> content) \<Rightarrow> effect \<Rightarrow> (string \<rightharpoonup> content)" where
  "apply_effect fs (BunWrite path c) = fs(path \<mapsto> c)"
| "apply_effect fs e = fs"

definition files_after :: "(string \<rightharpoonup> content) \<Rightarrow> effect list \<Rightarrow> (string \<rightharpoonup> content)" where
  "files_after fs es = foldl apply_effect fs es"

text \<open>What the loader returns on the next run, when the manifest held \<open>d\<close> before the
  effects: the value of the last JSON text written to the manifest's path, if any.\<close>

fun reload_step :: "string \<Rightarrow> json \<Rightarrow> effect \<Rightarrow> json" where
  "reload_step path cur (BunWrite p (JsonText v n)) = (if p = path then v else cur)"
| "reload_step path cur e = cur"

definition reload :: "string \<Rightarrow> json \<Rightarrow> effect list \<Rightarrow> json" where
  "reload path d es = foldl (reload_step path) d es"

text \<open>The merged scripts table in the specification's words: the original entries in
  their original order, an entry whose key is one of the new keys taking the new value
  in place, followed by the new entries whose keys the original table does not have.\<close>

definition spec_mergedScripts :: "props \<Rightarrow> (string \<times> string) list \<Rightarrow> props" where
  "spec_mergedScripts existing new =
     map (\<lambda>(k, v). case map_of new k of Some c \<Rightarrow> (k, JStr c) | None \<Rightarrow> (k, v)) existing
       @ map (\<lambda>(k, c). (k, JStr c)) (filter (\<lambda>(k, c). k \<notin> set (map fst existing)) new)"

section \<open>Init flow: the configuration renderer (init.ts)\<close>

text \<open>\<^verbatim>\<open>Array.prototype.join\<close> on strings.\<close>

fun join_with :: "string \<Rightarrow> string list \<Rightarrow> string" where
  "join_with sep [] = []"
| "join_with sep [x] = x"
| "join_with sep (x # y # ys) = x @ sep @ join_with sep (y # ys)"

text \<open>The template \<^verbatim>\<open>`'${file}'`\<close>: the string between single quotes.\<close>

definition quoted :: "string \<Rightarrow> string" where
  "quoted s = CHR 0x27 # s @ [CHR 0x27]"

definition NL :: string where
  "NL = [CHR 0x0A]"

definition TAB :: string where
  "TAB = [CHR 0x09]"

text \<open>
  \<^verbatim>\<open>
  function createConfigFileContent(entryFiles, outputFormats, plugins): string {
    const pluginImports =
      plugins.length > 0 ? plugins.map((plugin) => plugin).join(', ') : ''
    const pluginsConfig =
      plugins.length > 0
        ? `,\n\tplugins: [${plugins.map((plugin) => `${plugin}()`).join(', ')}],`
        : ''
    const imports =
      plugins.length > 0
        ? `import { defineConfig } from 'bunup'\nimport { ${pluginImports} } from 'bunup/plugins'`
        : `import { defineConfig } from 'bunup'`
    return `${imports}\n\nexport default defineConfig({\n\tentry: [${entryFiles.map((file) =>
      `'${file}'`).join(', ')}],\n\tformat: [${outputFormats.map((format) =>
      `'${format}'`).join(', ')}],${pluginsConfig}\n})\n`
  }
  \<close>
  (line breaks and tabs of the template literals written as \<^verbatim>\<open>\n\<close> and \<^verbatim>\<open>\t\<close>).
\<close>

definition createConfigFileContent :: "string list \<Rightarrow> string list \<Rightarrow> string list \<Rightarrow> string" where
  "createConfigFileContent entryFiles outputFormats plugins =
     (let pluginImports = (if length plugins > 0 then join_with '', '' plugins else []);
          pluginsConfig =
            (if length plugins > 0
             then '','' @ NL @ TAB @ ''plugins: [''
                    @ join_with '', '' (map (\<lambda>plugin. plugin @ ''()'') plugins) @ ''],''
             else []);
          imports =
            (if length plugins > 0
             then ''import { defineConfig } from '' @ quoted ''bunup'' @ NL
                    @ ''import { '' @ pluginImports @ '' } from '' @ quoted ''bunup/plugins''
             else ''import { defineConfig } from '' @ quoted ''bunup'')
      in imports @ NL @ NL
           @ ''export default defineConfig({'' @ NL
           @ TAB @ ''entry: ['' @ join_with '', '' (map quoted entryFiles) @ ''],'' @ NL
           @ TAB @ ''format: ['' @ join_with '', '' (map quoted outputFormats) @ ''],''
           @ pluginsConfig @ NL
           @ ''})'' @ NL)"

record WorkspacePackage =
  name :: string
  root :: string
  entryFiles :: "string list"
  outputFormats :: "string list"

text \<open>The block of one package in \<^verbatim>\<open>createWorkspaceConfigFileContent\<close>:
  \<^verbatim>\<open>
      return `  {
      name: '${pkg.name}',
      root: '${pkg.root}',
      config: {
        entry: [${pkg.entryFiles.map((file) => `'${file}'`).join(', ')}],
        format: [${pkg.outputFormats.map((format) => `'${format}'`).join(', ')}],
      },
    }`
  \<close>
\<close>

definition packageBlock :: "WorkspacePackage \<Rightarrow> string" where
  "packageBlock pkg =
     ''  {'' @ NL
       @ ''    name: '' @ quoted (name pkg) @ '','' @ NL
       @ ''    root: '' @ quoted (root pkg) @ '','' @ NL
       @ ''    config: {'' @ NL
       @ ''      entry: ['' @ join_with '', '' (map quoted (entryFiles pkg)) @ ''],'' @ NL
       @ ''      format: ['' @ join_with '', '' (map quoted (outputFormats pkg)) @ ''],'' @ NL
       @ ''    },'' @ NL
       @ ''  }''"

text \<open>
  \<^verbatim>\<open>
  function createWorkspaceConfigFileContent(workspacePackages, plugins): string {
    const packagesConfig = workspacePackages.map((pkg) => { ... }).join(',\n')
    const pluginImports =
      plugins.length > 0 ? plugins.map((plugin) => plugin).join(', ') : ''
    const pluginsConfig =
      plugins.length > 0
        ? `,\n  {\n    // Shared configuration applied to all packages\n    plugins: [${plugins
            .map((plugin) => `${plugin}()`).join(', ')}],\n  }`
        : ''
    const imports =
      plugins.length > 0
        ? `import { defineWorkspace } from 'bunup'\nimport { ${pluginImports} } from 'bunup/plugins'`
        : `import { defineWorkspace } from 'bunup'`
    return `${imports}\n\nexport default defineWorkspace([\n${packagesConfig}\n]${pluginsConfig})\n`
  }
  \<close>
\<close>

definition createWorkspaceConfigFileContent :: "WorkspacePackage list \<Rightarrow> string list \<Rightarrow> string" where
  "createWorkspaceConfigFileContent workspacePackages plugins =
     (let packagesConfig = join_with ('','' @ NL) (map packageBlock workspacePackages);
          pluginImports = (if length plugins > 0 then join_with '', '' plugins else []);
          pluginsConfig =
            (if length plugins > 0
             then '','' @ NL @ ''  {'' @ NL
                    @ ''    // Shared configuration applied to all packages'' @ NL
                    @ ''    plugins: [''
                    @ join_with '', '' (map (\<lambda>plugin. plugin @ ''()'') plugins) @ ''],'' @ NL
                    @ ''  }''
             else []);
          imports =
            (if length plugins > 0
             then ''import { defineWorkspace } from '' @ quoted ''bunup'' @ NL
                    @ ''import { '' @ pluginImports @ '' } from '' @ quoted ''bunup/plugins''
             else ''import { defineWorkspace } from '' @ quoted ''bunup'')
      in imports @ NL @ NL
           @ ''export default defineWorkspace(['' @ NL
           @ packagesConfig @ NL
           @ '']'' @ pluginsConfig @ '')'' @ NL)"

text \<open>
  The rendered text in the specification's words, written out character by character,
  independently of the renderer's helpers: a list is its elements with the separator
  between neighbours; an array value is its strings, each between single quotes,
  separated by a comma and a space.
\<close>

definition separated :: "string \<Rightarrow> string list \<Rightarrow> string" where
  "separated sep xs =
     (case xs of [] \<Rightarrow> [] | x # rest \<Rightarrow> x @ concat (map (\<lambda>y. sep @ y) rest))"

definition quotedArray :: "string list \<Rightarrow> string" where
  "quotedArray xs = separated '', '' (map (\<lambda>x. [CHR 0x27] @ x @ [CHR 0x27]) xs)"

text \<open>The plugin import line and the plugins key of the single-package shape, and the
  shared trailing block of the workspace shape.\<close>

definition pluginImportLine :: "string list \<Rightarrow> string" where
  "pluginImportLine plugins =
     ''import { '' @ separated '', '' plugins @ '' } from 'bunup/plugins'' @ [CHR 0x27]"

definition pluginCalls :: "string list \<Rightarrow> string" where
  "pluginCalls plugins = separated '', '' (map (\<lambda>plugin. plugin @ ''()'') plugins)"

definition pluginsKey :: "string list \<Rightarrow> string" where
  "pluginsKey plugins = ''plugins: ['' @ pluginCalls plugins @ ''],''"

definition sharedPluginsBlock :: "string list \<Rightarrow> string" where
  "sharedPluginsBlock plugins =
     ''  {\<newline>    // Shared configuration applied to all packages\<newline>    ''
       @ pluginsKey plugins @ ''\<newline>  }''"

text \<open>The block of one package of the workspace shape.\<close>

definition expectedPackageBlock :: "WorkspacePackage \<Rightarrow> string" where
  "expectedPackageBlock pkg =
     ''  {\<newline>    name: '' @ [CHR 0x27] @ name pkg @ [CHR 0x27] @ '',\<newline>''
       @ ''    root: '' @ [CHR 0x27] @ root pkg @ [CHR 0x27] @ '',\<newline>''
       @ ''    config: {\<newline>''
       @ ''      entry: ['' @ quotedArray (entryFiles pkg) @ ''],\<newline>''
       @ ''      format: ['' @ quotedArray (outputFormats pkg) @ ''],\<newline>''
       @ ''    },\<newline>  }''"

text \<open>Whether \<open>needle\<close> occurs in \<open>hay\<close> as a contiguous substring.\<close>

fun occurs_in :: "string \<Rightarrow> string \<Rightarrow> bool" where
  "occurs_in needle [] = (needle = [])"
| "occurs_in needle (c # cs) = (prefix needle (c # cs) \<or> occurs_in needle cs)"

section \<open>Init flow: the collection loops (init.ts)\<close>

text \<open>The file system as the validators see it: \<^verbatim>\<open>fs.existsSync(p)\<close> is
  \<open>fs p \<noteq> None\<close>, \<^verbatim>\<open>fs.statSync(p).isFile()\<close> is \<open>fs p = Some RegularFile\<close>,
  \<^verbatim>\<open>fs.statSync(p).isDirectory()\<close> is \<open>fs p = Some Directory\<close>.\<close>

datatype node_kind = RegularFile | Directory | OtherNode

type_synonym filesystem = "string \<Rightarrow> node_kind option"

text \<open>
  The \<^verbatim>\<open>validate\<close> callback of \<^verbatim>\<open>collectEntryFiles\<close>:
  \<^verbatim>\<open>
    if (!value) return 'Entry file is required'
    if (!fs.existsSync(value)) return 'Entry file does not exist'
    if (!fs.statSync(value).isFile()) return 'Entry file must be a file'
    if (entryFiles.includes(value)) return 'You have already added this entry file'
  \<close>
\<close>

definition validateEntryFile :: "filesystem \<Rightarrow> string list \<Rightarrow> string \<Rightarrow> string option" where
  "validateEntryFile fs collected v =
     (if v = [] then Some ''Entry file is required''
      else if fs v = None then Some ''Entry file does not exist''
      else if fs v \<noteq> Some RegularFile then Some ''Entry file must be a file''
      else if v \<in> set collected then Some ''You have already added this entry file''
      else None)"

text \<open>
  One pass of a collection loop takes what the user submits to the text prompt and the
  answer to \<^verbatim>\<open>Do you want to add another ...?\<close>.
  \<^verbatim>\<open>
  async function collectEntryFiles(): Promise<string[]> {
    const entryFiles: string[] = []
    while (true) {
      const entryFile = (await text({ ..., validate })) as string
      entryFiles.push(entryFile)
      const shouldAddMore = await confirm({ ... })
      if (!shouldAddMore) break
    }
    return entryFiles
  }
  \<close>
  The loop runs while the user keeps answering; \<open>None\<close> is a run that never returns
  because the user's input ends before the loop is left.
\<close>

type_synonym entry_round = "string list \<times> confirm_response"

fun collectEntryFilesLoop ::
  "filesystem \<Rightarrow> string list \<Rightarrow> entry_round list \<Rightarrow> string list option" where
  "collectEntryFilesLoop fs collected [] = None"
| "collectEntryFilesLoop fs collected ((submitted, shouldAddMore) # rounds) =
     (case text_prompt (validateEntryFile fs collected) submitted of
        None \<Rightarrow> None
      | Some entryFile \<Rightarrow>
          (if \<not> response_truthy shouldAddMore then Some (collected @ [entryFile])
           else collectEntryFilesLoop fs (collected @ [entryFile]) rounds))"

definition collectEntryFiles :: "filesystem \<Rightarrow> entry_round list \<Rightarrow> string list option" where
  "collectEntryFiles fs rounds = collectEntryFilesLoop fs [] rounds"

text \<open>
  The \<^verbatim>\<open>validate\<close> callback of \<^verbatim>\<open>collectEntryFilesForPackage\<close>; \<open>pathJoin\<close> is
  \<^verbatim>\<open>path.join\<close>:
  \<^verbatim>\<open>
    if (!value) return 'Entry file is required'
    const fullPath = path.join(packageRoot, value)
    if (!fs.existsSync(fullPath)) return `Entry file does not exist at ${fullPath}`
    if (!fs.statSync(fullPath).isFile()) return 'Entry file must be a file'
    if (entryFiles.includes(value)) return 'You have already added this entry file'
  \<close>
\<close>

definition validatePackageEntryFile ::
  "filesystem \<Rightarrow> (string \<Rightarrow> string \<Rightarrow> string) \<Rightarrow> string \<Rightarrow> string list \<Rightarrow> string
     \<Rightarrow> string option" where
  "validatePackageEntryFile fs pathJoin packageRoot collected v =
     (if v = [] then Some ''Entry file is required''
      else let fullPath = pathJoin packageRoot v in
        if fs fullPath = None then Some (''Entry file does not exist at '' @ fullPath)
        else if fs fullPath \<noteq> Some RegularFile then Some ''Entry file must be a file''
        else if v \<in> set collected then Some ''You have already added this entry file''
        else None)"

fun collectEntryFilesForPackageLoop ::
  "filesystem \<Rightarrow> (string \<Rightarrow> string \<Rightarrow> string) \<Rightarrow> string \<Rightarrow> string list \<Rightarrow> entry_round list
     \<Rightarrow> string list option" where
  "collectEntryFilesForPackageLoop fs pathJoin packageRoot collected [] = None"
| "collectEntryFilesForPackageLoop fs pathJoin packageRoot collected
       ((submitted, shouldAddMore) # rounds) =
     (case text_prompt (validatePackageEntryFile fs pathJoin packageRoot collected) submitted of
        None \<Rightarrow> None
      | Some entryFile \<Rightarrow>
          (if \<not> response_truthy shouldAddMore then Some (collected @ [entryFile])
           else collectEntryFilesForPackageLoop fs pathJoin packageRoot
                  (collected @ [entryFile]) rounds))"

definition collectEntryFilesForPackage ::
  "filesystem \<Rightarrow> (string \<Rightarrow> string \<Rightarrow> string) \<Rightarrow> string \<Rightarrow> entry_round list
     \<Rightarrow> string list option" where
  "collectEntryFilesForPackage fs pathJoin packageRoot rounds =
     collectEntryFilesForPackageLoop fs pathJoin packageRoot [] rounds"

text \<open>
  The \<^verbatim>\<open>validate\<close> callbacks of \<^verbatim>\<open>collectWorkspacePackages\<close>:
  \<^verbatim>\<open>
    if (!value) return 'Package name is required'
    if (packages.some((pkg) => pkg.name === value)) return 'Package name already exists'
  \<close>
  \<^verbatim>\<open>
    if (!value) return 'Package root is required'
    if (!fs.existsSync(value)) return 'Package root directory does not exist'
    if (!fs.statSync(value).isDirectory()) return 'Package root must be a directory'
  \<close>
\<close>

definition validatePackageName :: "WorkspacePackage list \<Rightarrow> string \<Rightarrow> string option" where
  "validatePackageName packages v =
     (if v = [] then Some ''Package name is required''
      else if v \<in> set (map name packages) then Some ''Package name already exists''
      else None)"

definition validatePackageRoot :: "filesystem \<Rightarrow> string \<Rightarrow> string option" where
  "validatePackageRoot fs v =
     (if v = [] then Some ''Package root is required''
      else if fs v = None then Some ''Package root directory does not exist''
      else if fs v \<noteq> Some Directory then Some ''Package root must be a directory''
      else None)"

text \<open>One pass of the package loop: what the user submits for the name and for the root,
  the passes of the inner entry-file loop, the selected formats, and the answer to
  \<^verbatim>\<open>Do you want to add another package?\<close>.\<close>

record package_round =
  nameSubmitted :: "string list"
  rootSubmitted :: "string list"
  entryRounds :: "entry_round list"
  selectedFormats :: "string list"
  addAnotherPackage :: confirm_response

text \<open>
  \<^verbatim>\<open>
  async function collectWorkspacePackages(): Promise<WorkspacePackage[]> {
    const packages: WorkspacePackage[] = []
    while (true) {
      const packageName = (await text({ ..., validate })) as string
      const packageRoot = (await text({ ..., validate })) as string
      const entryFiles = await collectEntryFilesForPackage(packageRoot, packageName)
      const outputFormats = await selectOutputFormats()
      packages.push({ name: packageName, root: packageRoot, entryFiles, outputFormats })
      const shouldAddMore = await confirm({ ... })
      if (!shouldAddMore) break
    }
    return packages
  }
  \<close>
\<close>

fun collectWorkspacePackagesLoop ::
  "filesystem \<Rightarrow> (string \<Rightarrow> string \<Rightarrow> string) \<Rightarrow> WorkspacePackage list \<Rightarrow> package_round list
     \<Rightarrow> WorkspacePackage list option" where
  "collectWorkspacePackagesLoop fs pathJoin packages [] = None"
| "collectWorkspacePackagesLoop fs pathJoin packages (r # rounds) =
     (case text_prompt (validatePackageName packages) (nameSubmitted r) of
        None \<Rightarrow> None
      | Some packageName \<Rightarrow>
          (case text_prompt (validatePackageRoot fs) (rootSubmitted r) of
             None \<Rightarrow> None
           | Some packageRoot \<Rightarrow>
               (case collectEntryFilesForPackage fs pathJoin packageRoot (entryRounds r) of
                  None \<Rightarrow> None
                | Some files \<Rightarrow>
                    (let pushed = packages @
                           [\<lparr>name = packageName, root = packageRoot, entryFiles = files,
                             outputFormats = selectedFormats r\<rparr>]
                     in if \<not> response_truthy (addAnotherPackage r) then Some pushed
                        else collectWorkspacePackagesLoop fs pathJoin pushed rounds))))"

definition collectWorkspacePackages ::
  "filesystem \<Rightarrow> (string \<Rightarrow> string \<Rightarrow> string) \<Rightarrow> package_round list
     \<Rightarrow> WorkspacePackage list option" where
  "collectWorkspacePackages fs pathJoin rounds = collectWorkspacePackagesLoop fs pathJoin [] rounds"

section \<open>Init flow: the whole run (init.ts)\<close>

text \<open>What the run finds (the manifest's path from the first \<^verbatim>\<open>loadPackageJson\<close>, its
  data from the one inside the script merge, the file system, whether the install
  command succeeds) and what the user answers.\<close>

record init_env =
  packageJsonPath :: "string option"
  packageJsonData :: json
  fileSystem :: filesystem
  pathJoin :: "string \<Rightarrow> string \<Rightarrow> string"
  installSucceeds :: bool

record init_answers =
  setupWorkspace :: confirm_response
  singleEntryRounds :: "entry_round list"
  singleFormats :: "string list"
  selectedPlugins :: "string list"
  packageRounds :: "package_round list"
  shouldOverride :: confirm_response

text \<open>How a run ends: it completes, the process exits with a status, a collaborator's
  failure surfaces as an unhandled rejection, or it is still waiting for input.\<close>

datatype run_status = Completed | Exited nat | Rejected | Waiting

text \<open>
  \<^verbatim>\<open>
  async function initializeSinglePackage(packageJsonPath: string): Promise<void> {
    const entryFiles = await collectEntryFiles()
    const outputFormats = await selectOutputFormats()
    const plugins = await selectProductivityPlugins()
    await generateConfiguration(entryFiles, outputFormats, plugins)
    await handleBuildScripts(packageJsonPath)
  }
  \<close>
  where \<^verbatim>\<open>generateConfiguration\<close> writes \<^verbatim>\<open>createConfigFileContent(...)\<close> to
  \<^verbatim>\<open>bunup.config.ts\<close>.
\<close>

definition initializeSinglePackage :: "init_env \<Rightarrow> init_answers \<Rightarrow> string \<Rightarrow> effect list option" where
  "initializeSinglePackage env ans path =
     (case collectEntryFiles (fileSystem env) (singleEntryRounds ans) of
        None \<Rightarrow> None
      | Some files \<Rightarrow>
          Some (BunWrite ''bunup.config.ts''
                  (Text (createConfigFileContent files (singleFormats ans) (selectedPlugins ans)))
                # handleBuildScripts path (packageJsonData env) (shouldOverride ans)))"

text \<open>
  \<^verbatim>\<open>
  async function initializeWorkspace(packageJsonPath: string): Promise<void> {
    const workspacePackages = await collectWorkspacePackages()
    const plugins = await selectProductivityPlugins()
    await generateWorkspaceConfiguration(workspacePackages, plugins)
    await handleWorkspaceBuildScripts(packageJsonPath)
  }
  \<close>
\<close>

definition initializeWorkspace :: "init_env \<Rightarrow> init_answers \<Rightarrow> string \<Rightarrow> effect list option" where
  "initializeWorkspace env ans path =
     (case collectWorkspacePackages (fileSystem env) (pathJoin env) (packageRounds ans) of
        None \<Rightarrow> None
      | Some packages \<Rightarrow>
          Some (BunWrite ''bunup.config.ts''
                  (Text (createWorkspaceConfigFileContent packages (selectedPlugins ans)))
                # handleWorkspaceBuildScripts path (packageJsonData env) (shouldOverride ans)))"

text \<open>
  \<^verbatim>\<open>
  export async function init(): Promise<void> {
    intro(...)
    const { path: packageJsonPath } = await loadPackageJson()
    if (!packageJsonPath) {
      log.error('package.json not found')
      process.exit(1)
    }
    const shouldSetupWorkspace = await promptForWorkspace()
    if (shouldSetupWorkspace) {
      await initializeWorkspace(packageJsonPath)
    } else {
      await initializeSinglePackage(packageJsonPath)
    }
    await tasks([{ title: 'Installing bunup', task: async () => { await installBunup(); ... } }])
    showSuccessOutro(shouldSetupWorkspace)
  }
  \<close>
  An empty path string is falsy, as a missing one.
\<close>

definition init :: "init_env \<Rightarrow> init_answers \<Rightarrow> effect list \<times> run_status" where
  "init env ans =
     (case packageJsonPath env of
        None \<Rightarrow> ([Intro, LogError ''package.json not found''], Exited 1)
      | Some path \<Rightarrow>
          if path = [] then ([Intro, LogError ''package.json not found''], Exited 1)
          else
            (let shouldSetupWorkspace = response_truthy (setupWorkspace ans) in
             case (if shouldSetupWorkspace then initializeWorkspace env ans path
                   else initializeSinglePackage env ans path) of
               None \<Rightarrow> ([Intro], Waiting)
             | Some effects \<Rightarrow>
                 if installSucceeds env
                 then (Intro # effects @ [Exec ''bun add -d bunup'',
                         ShowSuccessOutro shouldSetupWorkspace], Completed)
                 else (Intro # effects @ [Exec ''bun add -d bunup''], Rejected)))"

section \<open>Example inputs\<close>

definition manifest_build_old :: json where
  "manifest_build_old = JObj [(''name'', JStr ''pkg''), (''scripts'', JObj [(''build'', JStr ''old'')])]"

definition manifest_test_x :: json where
  "manifest_test_x = JObj [(''name'', JStr ''pkg''), (''scripts'', JObj [(''test'', JStr ''x'')])]"

definition manifest_fields :: json where
  "manifest_fields =
     JObj [(''name'', JStr ''pkg''), (''version'', JStr ''1.0.0''),
           (''scripts'', JObj [(''build'', JStr ''old'')]),
           (''private'', JBool True)]"

definition example_fs :: filesystem where
  "example_fs p =
     (if p = ''src/index.ts'' \<or> p = ''src/cli.ts'' \<or> p = ''packages/core/src/index.ts''
      then Some RegularFile
      else if p = ''src'' \<or> p = ''packages/core'' then Some Directory
      else None)"

definition example_create_answers :: create_answers where
  "example_create_answers =
     \<lparr>selectedTemplateType = Some React, variantAnswer = Full,
      monorepoAnswer = Answered False, projectNameSubmitted = []\<rparr>"

definition example_init_env :: init_env where
  "example_init_env =
     \<lparr>packageJsonPath = Some ''package.json'', packageJsonData = manifest_build_old,
      fileSystem = example_fs, pathJoin = (\<lambda>a b. a @ ''/'' @ b), installSucceeds = True\<rparr>"

definition example_init_answers :: init_answers where
  "example_init_answers =
     \<lparr>setupWorkspace = Answered False,
      singleEntryRounds = [([''missing.ts'', ''src/index.ts''], Answered False)],
      singleFormats = [''esm'', ''cjs''], selectedPlugins = [],
      packageRounds = [], shouldOverride = Answered False\<rparr>"

definition example_package_round :: package_round where
  "example_package_round =
     \<lparr>nameSubmitted = [ [], ''core''], rootSubmitted = [''packages/missing'', ''packages/core''],
      entryRounds = [([''src/index.ts''], Answered False)],
      selectedFormats = [''esm'', ''cjs''], addAnotherPackage = Answered False\<rparr>"

definition example_package :: WorkspacePackage where
  "example_package =
     \<lparr>name = ''core'', root = ''packages/core'', entryFiles = [''src/index.ts''],
      outputFormats = [''esm'', ''cjs'']\<rparr>"

section \<open>Theorems\<close>

subsection \<open>Objects: enumeration order is an invariant of property definition\<close>

lemma index_inj: "is_array_index a \<Longrightarrow> is_array_index b \<Longrightarrow> numeric_value a = numeric_value b \<Longrightarrow> a = b"
  by (metis is_array_index_def)

lemma set_insert_index: "set (insert_index k v ps) = insert (k, v) (set ps)"
  by (induction ps) (auto split: if_splits)

lemma keys_insert_index: "fst ` set (insert_index k v ps) = insert k (fst ` set ps)"
  by (simp add: set_insert_index)


lemma sorted_insert_index:
  assumes "is_array_index k" "k \<notin> set (map fst ps)" "sorted_wrt key_before (map fst ps)"
  shows "sorted_wrt key_before (map fst (insert_index k v ps))"
  using assms
proof (induction ps)
  case Nil
  then show ?case by simp
next
  case (Cons p ps)
  obtain a w where p: "p = (a, w)" by (cases p)
  show ?case
  proof (cases "is_array_index a \<and> numeric_value a < numeric_value k")
    case True
    have "key_before a k" using True Cons.prems(1) by (simp add: key_before_def)
    then show ?thesis using Cons True p by (auto simp: keys_insert_index)
  next
    case False
    have ak: "a \<noteq> k" using Cons.prems(2) p by auto
    have ne: "numeric_value a \<noteq> numeric_value k" if "is_array_index a"
      using that ak Cons.prems(1) index_inj[of a k] by blast
    have 1: "key_before k a"
    proof (cases "is_array_index a")
      case True
      then have "numeric_value k < numeric_value a" using False ne by auto
      then show ?thesis using Cons.prems(1) by (simp add: key_before_def)
    next
      case False
      then show ?thesis by (simp add: key_before_def)
    qed
    have 2: "key_before k y" if "y \<in> set (map fst ps)" for y
    proof -
      have "key_before a y" using Cons.prems(3) p that by auto
      then show ?thesis using 1 Cons.prems(1)
        by (auto simp: key_before_def split: if_splits)
    qed
    show ?thesis using False p 1 2 Cons.prems(3) by auto
  qed
qed

lemma distinct_insert_index:
  "k \<notin> set (map fst ps) \<Longrightarrow> distinct (map fst ps) \<Longrightarrow> distinct (map fst (insert_index k v ps))"
  by (induction ps) (auto simp: keys_insert_index)

lemma fst_update: "map fst (map (\<lambda>(a, w). if a = k then (a, v) else (a, w)) ps) = map fst ps"
  by (induction ps) auto

lemma canonical_obj_set: "js_canonical ps \<Longrightarrow> js_canonical (obj_set ps k v)"
  unfolding js_canonical_def obj_set_def
  by (auto simp: fst_update sorted_insert_index distinct_insert_index sorted_wrt_append key_before_def simp del: map_map)

lemma canonical_foldl: "js_canonical acc \<Longrightarrow> js_canonical (foldl (\<lambda>acc (k, v). obj_set acc k v) acc xs)"
  by (induction xs arbitrary: acc) (auto simp: canonical_obj_set)

lemma canonical_spread: "js_canonical acc \<Longrightarrow> js_canonical (spread acc src)"
  by (simp add: spread_def canonical_foldl)

lemma canonical_Nil: "js_canonical []" by (simp add: js_canonical_def)

lemma insert_index_append:
  "\<forall>a \<in> set (map fst ps). is_array_index a \<and> numeric_value a < numeric_value k \<Longrightarrow> insert_index k v ps = ps @ [(k, v)]"
  by (induction ps) auto

lemma obj_set_fresh_last:
  assumes "js_canonical (ps @ [(k, v)])"
  shows "obj_set ps k v = ps @ [(k, v)]"
proof -
  have notin: "k \<notin> set (map fst ps)" using assms by (auto simp: js_canonical_def)
  have bef: "\<forall>a \<in> set (map fst ps). key_before a k"
    using assms by (auto simp: js_canonical_def sorted_wrt_append)
  show ?thesis
  proof (cases "is_array_index k")
    case True
    then have "\<forall>a \<in> set (map fst ps). is_array_index a \<and> numeric_value a < numeric_value k"
      using bef by (auto simp: key_before_def)
    then show ?thesis using notin True by (simp add: obj_set_def insert_index_append)
  next
    case False
    then show ?thesis using notin by (simp add: obj_set_def)
  qed
qed

lemma canonical_prefix: "js_canonical (ps @ qs) \<Longrightarrow> js_canonical ps"
  by (auto simp: js_canonical_def sorted_wrt_append)

lemma foldl_canonical_id:
  "js_canonical (acc @ xs) \<Longrightarrow> foldl (\<lambda>acc (k, v). obj_set acc k v) acc xs = acc @ xs"
proof (induction xs arbitrary: acc)
  case Nil
  then show ?case by simp
next
  case (Cons x xs)
  obtain k v where x: "x = (k, v)" by (cases x)
  have "js_canonical ((acc @ [(k, v)]) @ xs)" using Cons.prems x by simp
  then have c: "js_canonical (acc @ [(k, v)])" by (rule canonical_prefix)
  have "obj_set acc k v = acc @ [(k, v)]" using c by (rule obj_set_fresh_last)
  then show ?case using Cons.IH[of "acc @ [(k, v)]"] Cons.prems x by simp
qed

lemma spread_canonical_id: "js_canonical (own_props src) \<Longrightarrow> spread [] src = own_props src"
  using foldl_canonical_id[of "[]" "own_props src"] by (simp add: spread_def)


lemma not_index_build: "\<not> is_array_index ''build''"
  by (simp add: is_array_index_def numeric_value_def digit_char_def)

lemma not_index_dev: "\<not> is_array_index ''dev''"
  by (simp add: is_array_index_def numeric_value_def digit_char_def)

lemma not_index_scripts: "\<not> is_array_index ''scripts''"
  by (simp add: is_array_index_def numeric_value_def digit_char_def)

lemma map_of_insert_index:
  "k \<notin> fst ` set ps \<Longrightarrow> map_of (insert_index k v ps) k' = (if k' = k then Some v else map_of ps k')"
proof (induction ps arbitrary: k')
  case Nil
  then show ?case by simp
next
  case (Cons p ps)
  obtain a w where p: "p = (a, w)" by (cases p)
  have ak: "a \<noteq> k" and notin: "k \<notin> fst ` set ps" using Cons.prems p by auto
  show ?case using Cons.IH[OF notin] ak p by simp
qed

lemma keys_update_image:
  "fst ` (\<lambda>(a, w). if a = k then (a, v) else (a, w)) ` S = fst ` S"
proof -
  have eq: "fst \<circ> (\<lambda>(a, w). if a = k then (a, v) else (a, w)) = fst"
    by (auto simp: fun_eq_iff)
  have "fst ` (\<lambda>(a, w). if a = k then (a, v) else (a, w)) ` S
        = (fst \<circ> (\<lambda>(a, w). if a = k then (a, v) else (a, w))) ` S"
    by (simp only: image_comp)
  then show ?thesis by (simp only: eq)
qed

lemma map_of_update:
  "map_of (map (\<lambda>(a, w). if a = k then (a, v) else (a, w)) ps) k' =
     (if k' = k then map_option (\<lambda>w. v) (map_of ps k) else map_of ps k')"
  by (induction ps) auto

lemma map_of_obj_set: "map_of (obj_set ps k v) k' = (if k' = k then Some v else map_of ps k')"
proof (cases "k \<in> fst ` set ps")
  case True
  then obtain w where "map_of ps k = Some w"
    by (metis map_of_eq_None_iff not_None_eq)
  then show ?thesis using True by (simp add: obj_set_def map_of_update)
next
  case False
  then have none: "map_of ps k = None" by (simp add: map_of_eq_None_iff)
  show ?thesis
  proof (cases "is_array_index k")
    case True
    then show ?thesis using False map_of_insert_index[OF False] by (simp add: obj_set_def)
  next
    case nidx: False
    then show ?thesis using False none
      by (auto simp: obj_set_def map_add_def split: option.splits)
  qed
qed

lemma update_same:
  "distinct (map fst ps) \<Longrightarrow> map_of ps k = Some v \<Longrightarrow>
   map (\<lambda>(a, w). if a = k then (a, v) else (a, w)) ps = ps"
proof (induction ps)
  case Nil
  then show ?case by simp
next
  case (Cons p ps)
  obtain a w where p: "p = (a, w)" by (cases p)
  show ?case
  proof (cases "a = k")
    case True
    then have "w = v" using Cons.prems p by simp
    moreover have "k \<notin> fst ` set ps" using Cons.prems(1) p True by auto
    then have "map (\<lambda>(a, w). if a = k then (a, v) else (a, w)) ps = ps"
      by (induction ps) auto
    ultimately show ?thesis using p True by simp
  next
    case False
    then show ?thesis using Cons p by simp
  qed
qed

lemma obj_set_same:
  assumes "js_canonical ps" "map_of ps k = Some v"
  shows "obj_set ps k v = ps"
proof -
  have "(k, v) \<in> set ps" using assms(2) by (rule map_of_SomeD)
  then have "k \<in> fst ` set ps" by force
  then show ?thesis using assms update_same[of ps k v]
    by (simp add: obj_set_def js_canonical_def)
qed

lemma obj_set_string_key:
  assumes "\<not> is_array_index k"
  shows "obj_set ps k v =
         map (\<lambda>(a, w). if a = k then (a, v) else (a, w)) ps
           @ (if k \<in> fst ` set ps then [] else [(k, v)])"
proof (cases "k \<in> fst ` set ps")
  case True
  then show ?thesis by (simp add: obj_set_def)
next
  case False
  then have "map (\<lambda>(a, w). if a = k then (a, v) else (a, w)) ps = ps"
    by (induction ps) auto
  then show ?thesis using False assms by (simp add: obj_set_def)
qed

subsection \<open>The merge as a function of the manifest\<close>

lemma spread_build_dev:
  "spread ps (record_json createBuildScripts) = spec_mergedScripts ps createBuildScripts"
proof -
  let ?B = "JStr ''bunup''" and ?D = "JStr ''bunup --watch''"
  let ?ub = "\<lambda>(a, w). if a = ''build'' then (a, ?B) else (a, w)"
  let ?ud = "\<lambda>(a, w). if a = ''dev'' then (a, ?D) else (a, w)"
  let ?ps1 = "obj_set ps ''build'' ?B"
  have s1: "?ps1 = map ?ub ps @ (if ''build'' \<in> fst ` set ps then [] else [(''build'', ?B)])"
    by (rule obj_set_string_key[OF not_index_build])
  have keys1: "''dev'' \<in> fst ` set ?ps1 \<longleftrightarrow> ''dev'' \<in> fst ` set ps"
    unfolding s1 by (simp add: image_Un keys_update_image)
  have s2: "obj_set ?ps1 ''dev'' ?D =
            map ?ud ?ps1 @ (if ''dev'' \<in> fst ` set ps then [] else [(''dev'', ?D)])"
    using obj_set_string_key[OF not_index_dev, of ?ps1 ?D] keys1 by simp
  have m: "map ?ud (map ?ub ps) =
           map (\<lambda>(k, v). case map_of createBuildScripts k of Some c \<Rightarrow> (k, JStr c) | None \<Rightarrow> (k, v)) ps"
    by (induction ps) (auto simp: createBuildScripts_def)
  have "spread ps (record_json createBuildScripts) = obj_set ?ps1 ''dev'' ?D"
    by (simp add: spread_def record_json_def createBuildScripts_def)
  also have "\<dots> = map ?ud (map ?ub ps)
        @ (if ''build'' \<in> fst ` set ps then [] else [(''build'', ?B)])
        @ (if ''dev'' \<in> fst ` set ps then [] else [(''dev'', ?D)])"
    unfolding s2 unfolding s1 by simp
  also have "\<dots> = spec_mergedScripts ps createBuildScripts"
    unfolding m by (simp add: spec_mergedScripts_def createBuildScripts_def)
  finally show ?thesis .
qed

lemma mergedScripts_canonical_table:
  "js_canonical ps \<Longrightarrow>
   mergedScripts (JObj ps) createBuildScripts = spec_mergedScripts ps createBuildScripts"
  by (simp add: mergedScripts_def spread_canonical_id spread_build_dev)

lemma canonical_mergedScripts: "js_canonical (mergedScripts e new)"
  by (simp add: mergedScripts_def canonical_spread canonical_Nil)

lemma get_scripts_updatedConfig:
  "get_prop (updatedConfig d new) ''scripts'' = Some (JObj (mergedScripts (existingScriptsOf d) new))"
  by (simp add: updatedConfig_def get_prop_def map_of_obj_set)

lemma canonical_updatedConfig: "js_canonical (own_props (updatedConfig d new))"
  by (simp add: updatedConfig_def canonical_obj_set canonical_spread canonical_Nil)

lemma mergeBuildScripts_cases:
  "mergeBuildScripts new path d r =
     (if conflictingScripts (existingScriptsOf d) new = []
      then [BunWrite path (JsonText (updatedConfig d new) 2)]
      else if response_truthy r
      then [ConfirmPrompt (overrideMessage (conflictingScripts (existingScriptsOf d) new)),
            BunWrite path (JsonText (updatedConfig d new) 2)]
      else [ConfirmPrompt (overrideMessage (conflictingScripts (existingScriptsOf d) new)),
            LogInfo ''Skipped adding build scripts to avoid conflicts.''])"
  by (simp add: mergeBuildScripts_def Let_def)

lemma handleBuildScripts_cases:
  "handleBuildScripts path d r =
     (if conflictingScripts (existingScriptsOf d) createBuildScripts = []
      then [BunWrite path (JsonText (updatedConfig d createBuildScripts) 2)]
      else if response_truthy r
      then [ConfirmPrompt (overrideMessage (conflictingScripts (existingScriptsOf d) createBuildScripts)),
            BunWrite path (JsonText (updatedConfig d createBuildScripts) 2)]
      else [ConfirmPrompt (overrideMessage (conflictingScripts (existingScriptsOf d) createBuildScripts)),
            LogInfo ''Skipped adding build scripts to avoid conflicts.''])"
  by (simp only: handleBuildScripts_def mergeBuildScripts_cases)

lemma handleWorkspaceBuildScripts_eq: "handleWorkspaceBuildScripts = handleBuildScripts"
  by (simp add: handleWorkspaceBuildScripts_def handleBuildScripts_def
      createWorkspaceBuildScripts_def createBuildScripts_def)

text \<open>
  C1, as stated, fails: in the table \<open>{build: ""}\<close> the key \<open>build\<close> is present, with the
  empty string as its value, and the filter \<^verbatim>\<open>existingScripts[script]\<close> does not classify
  it as conflicting.
\<close>

theorem C1_counterexample:
  "''build'' \<in> fst ` set [(''build'', JStr [])] \<and>
   ''build'' \<notin> set (conflictingScripts (JObj [(''build'', JStr [])]) createBuildScripts)"
  by (simp add: conflictingScripts_def createBuildScripts_def get_prop_def)

text \<open>
  C1 (amended): for every existing scripts table and the new scripts \<open>{build, dev}\<close>, a new
  key is classified as conflicting if and only if the existing table has that key with a
  truthy value (for a string value: a non-empty string). A key that is absent, or present
  with a falsy value such as the empty string, is not classified as conflicting.
\<close>

theorem C1_conflicting_iff_truthy:
  "k \<in> set (conflictingScripts (JObj ps) createBuildScripts) \<longleftrightarrow>
     (k = ''build'' \<or> k = ''dev'') \<and> truthy (map_of ps k)"
  by (auto simp: conflictingScripts_def createBuildScripts_def get_prop_def)

lemma conflicting_string_valued:
  "map_of ps k = Some (JStr s) \<Longrightarrow>
   k \<in> set (conflictingScripts (JObj ps) createBuildScripts) \<longleftrightarrow>
     (k = ''build'' \<or> k = ''dev'') \<and> s \<noteq> []"
  by (auto simp: conflictingScripts_def createBuildScripts_def get_prop_def)

lemma init_single_decline:
  assumes "packageJsonPath env = Some path" "path \<noteq> []"
    and "setupWorkspace ans = Answered False"
    and "collectEntryFiles (fileSystem env) (singleEntryRounds ans) = Some files"
    and "conflictingScripts (existingScriptsOf (packageJsonData env)) createBuildScripts \<noteq> []"
    and "shouldOverride ans = Answered False"
    and "installSucceeds env"
  shows "init env ans =
     ([Intro,
       BunWrite ''bunup.config.ts''
         (Text (createConfigFileContent files (singleFormats ans) (selectedPlugins ans))),
       ConfirmPrompt (overrideMessage
         (conflictingScripts (existingScriptsOf (packageJsonData env)) createBuildScripts)),
       LogInfo ''Skipped adding build scripts to avoid conflicts.'',
       Exec ''bun add -d bunup'',
       ShowSuccessOutro False], Completed)"
  using assms
  by (simp add: init_def initializeSinglePackage_def handleBuildScripts_cases)

lemma init_example:
  "init example_init_env example_init_answers =
     ([Intro,
       BunWrite ''bunup.config.ts''
         (Text (createConfigFileContent [''src/index.ts''] [''esm'', ''cjs''] [])),
       ConfirmPrompt ''The build script already exists in package.json. Override it?'',
       LogInfo ''Skipped adding build scripts to avoid conflicts.'',
       Exec ''bun add -d bunup'',
       ShowSuccessOutro False], Completed)"
  by (simp add: init_def example_init_env_def example_init_answers_def initializeSinglePackage_def
      collectEntryFiles_def validateEntryFile_def example_fs_def handleBuildScripts_cases
      conflictingScripts_def existingScriptsOf_def manifest_build_old_def
      createBuildScripts_def get_prop_def overrideMessage_def)

text \<open>
  C2: for every manifest with at least one conflicting script key, if the user answers
  no to the confirmation, the merge does exactly two things: it asks the one
  confirmation and logs the informational message. It writes nothing: the files are as
  before, so the manifest, with its scripts table, is what it was, and no new key is
  merged. The flow goes on: the init run that contains the declined merge still runs the
  install command and the closing summary and completes.
\<close>

theorem C2_decline_aborts:
  assumes "conflictingScripts (existingScriptsOf d) createBuildScripts \<noteq> []"
  shows "handleBuildScripts path d (Answered False) =
           [ConfirmPrompt (overrideMessage (conflictingScripts (existingScriptsOf d) createBuildScripts)),
            LogInfo ''Skipped adding build scripts to avoid conflicts.'']
         \<and> files_after fs (handleBuildScripts path d (Answered False)) = fs
         \<and> reload path d (handleBuildScripts path d (Answered False)) = d
         \<and> (packageJsonPath env = Some path \<and> path \<noteq> [] \<and> packageJsonData env = d
              \<and> setupWorkspace ans = Answered False
              \<and> collectEntryFiles (fileSystem env) (singleEntryRounds ans) = Some files
              \<and> shouldOverride ans = Answered False \<and> installSucceeds env
            \<longrightarrow> init env ans =
                 ([Intro,
                   BunWrite ''bunup.config.ts''
                     (Text (createConfigFileContent files (singleFormats ans) (selectedPlugins ans))),
                   ConfirmPrompt (overrideMessage
                     (conflictingScripts (existingScriptsOf d) createBuildScripts)),
                   LogInfo ''Skipped adding build scripts to avoid conflicts.'',
                   Exec ''bun add -d bunup'',
                   ShowSuccessOutro False], Completed))"
proof -
  have a: "handleBuildScripts path d (Answered False) =
           [ConfirmPrompt (overrideMessage (conflictingScripts (existingScriptsOf d) createBuildScripts)),
            LogInfo ''Skipped adding build scripts to avoid conflicts.'']"
    using assms by (simp add: handleBuildScripts_cases)
  have b: "files_after fs (handleBuildScripts path d (Answered False)) = fs"
    unfolding a by (simp add: files_after_def)
  have c: "reload path d (handleBuildScripts path d (Answered False)) = d"
    unfolding a by (simp add: reload_def)
  have e: "init env ans =
                 ([Intro,
                   BunWrite ''bunup.config.ts''
                     (Text (createConfigFileContent files (singleFormats ans) (selectedPlugins ans))),
                   ConfirmPrompt (overrideMessage
                     (conflictingScripts (existingScriptsOf d) createBuildScripts)),
                   LogInfo ''Skipped adding build scripts to avoid conflicts.'',
                   Exec ''bun add -d bunup'',
                   ShowSuccessOutro False], Completed)"
    if "packageJsonPath env = Some path" "path \<noteq> []" "packageJsonData env = d"
      "setupWorkspace ans = Answered False"
      "collectEntryFiles (fileSystem env) (singleEntryRounds ans) = Some files"
      "shouldOverride ans = Answered False" "installSucceeds env"
    using init_single_decline[of env path ans files] that assms by simp
  show ?thesis using a b c e by blast
qed

theorem C2_decline_aborts_witness:
  "conflictingScripts (existingScriptsOf manifest_build_old) createBuildScripts = [''build''] \<and>
   handleBuildScripts ''package.json'' manifest_build_old (Answered False) =
     [ConfirmPrompt ''The build script already exists in package.json. Override it?'',
      LogInfo ''Skipped adding build scripts to avoid conflicts.''] \<and>
   reload ''package.json'' manifest_build_old
     (handleBuildScripts ''package.json'' manifest_build_old (Answered False)) = manifest_build_old \<and>
   collectEntryFiles (fileSystem example_init_env) (singleEntryRounds example_init_answers)
     = Some [''src/index.ts''] \<and>
   init example_init_env example_init_answers =
     ([Intro,
       BunWrite ''bunup.config.ts''
         (Text (createConfigFileContent [''src/index.ts''] [''esm'', ''cjs''] [])),
       ConfirmPrompt ''The build script already exists in package.json. Override it?'',
       LogInfo ''Skipped adding build scripts to avoid conflicts.'',
       Exec ''bun add -d bunup'',
       ShowSuccessOutro False], Completed)"
proof -
  have c: "conflictingScripts (existingScriptsOf manifest_build_old) createBuildScripts = [''build'']"
    by (simp add: conflictingScripts_def existingScriptsOf_def manifest_build_old_def
        createBuildScripts_def get_prop_def)
  then have ne: "conflictingScripts (existingScriptsOf manifest_build_old) createBuildScripts \<noteq> []"
    by simp
  have f: "collectEntryFiles (fileSystem example_init_env) (singleEntryRounds example_init_answers)
     = Some [''src/index.ts'']"
    by (simp add: example_init_env_def example_init_answers_def collectEntryFiles_def
        validateEntryFile_def example_fs_def)
  have env: "packageJsonPath example_init_env = Some ''package.json''"
    "packageJsonData example_init_env = manifest_build_old"
    "setupWorkspace example_init_answers = Answered False"
    "shouldOverride example_init_answers = Answered False"
    "installSucceeds example_init_env"
    "singleFormats example_init_answers = [''esm'', ''cjs'']"
    "selectedPlugins example_init_answers = []"
    by (simp_all add: example_init_env_def example_init_answers_def)
  show ?thesis
    using C2_decline_aborts[OF ne, of "''package.json''" Map.empty example_init_env
        example_init_answers "[''src/index.ts'']"] c f env
    by (auto simp: overrideMessage_def)
qed

text \<open>
  C3: whenever the merge proceeds (the filter finds no conflict, or the user accepts),
  the run ends with the write of the updated manifest, and its scripts table is the
  original table in its original key order, where an entry whose key is \<open>build\<close> or
  \<open>dev\<close> has taken the new value in place and every other entry has kept its value,
  followed by those of \<open>build\<close>, \<open>dev\<close> that the original table did not have. A key
  counts as conflicting here when the original table has it. The original table is an
  object as JavaScript holds it (\<open>js_canonical\<close>).
\<close>

theorem C3_merged_scripts:
  assumes "js_canonical ps"
    and "existingScriptsOf d = JObj ps"
    and "conflictingScripts (JObj ps) createBuildScripts = [] \<or> response_truthy r"
  shows "last (handleBuildScripts path d r) =
           BunWrite path (JsonText (updatedConfig d createBuildScripts) 2)
         \<and> get_prop (updatedConfig d createBuildScripts) ''scripts'' =
           Some (JObj (spec_mergedScripts ps createBuildScripts))"
  using assms
  by (auto simp: handleBuildScripts_cases get_scripts_updatedConfig mergedScripts_canonical_table)

theorem C3_merged_scripts_witness:
  "js_canonical [(''test'', JStr ''x'')] \<and>
   existingScriptsOf manifest_test_x = JObj [(''test'', JStr ''x'')] \<and>
   conflictingScripts (JObj [(''test'', JStr ''x'')]) createBuildScripts = [] \<and>
   get_prop (updatedConfig manifest_test_x createBuildScripts) ''scripts'' =
     Some (JObj [(''test'', JStr ''x''), (''build'', JStr ''bunup''), (''dev'', JStr ''bunup --watch'')])"
proof -
  have a: "js_canonical [(''test'', JStr ''x'')]" by (simp add: js_canonical_def)
  have b: "existingScriptsOf manifest_test_x = JObj [(''test'', JStr ''x'')]"
    by (simp add: existingScriptsOf_def manifest_test_x_def get_prop_def)
  have c: "conflictingScripts (JObj [(''test'', JStr ''x'')]) createBuildScripts = []"
    by (simp add: conflictingScripts_def createBuildScripts_def get_prop_def)
  then have c': "conflictingScripts (JObj [(''test'', JStr ''x'')]) createBuildScripts = [] \<or> response_truthy (Answered False)"
    by simp
  have s: "spec_mergedScripts [(''test'', JStr ''x'')] createBuildScripts =
           [(''test'', JStr ''x''), (''build'', JStr ''bunup''), (''dev'', JStr ''bunup --watch'')]"
    by (simp add: spec_mergedScripts_def createBuildScripts_def)
  show ?thesis
    using C3_merged_scripts[OF a b c', of "''package.json''"] a b c s by simp
qed

lemma handleBuildScripts_writes_only:
  "BunWrite p c \<in> set (handleBuildScripts path d r) \<Longrightarrow>
   p = path \<and> c = JsonText (updatedConfig d createBuildScripts) 2"
  by (auto simp: handleBuildScripts_cases split: if_splits)

lemma filter_update_other:
  "filter (\<lambda>e. fst e \<noteq> k) (map (\<lambda>(a, w). if a = k then (a, v) else (a, w)) ps)
     = filter (\<lambda>e. fst e \<noteq> k) ps"
  by (induction ps) (auto split: if_splits)

lemma filter_obj_set_string_key:
  "\<not> is_array_index k \<Longrightarrow>
   filter (\<lambda>e. fst e \<noteq> k) (obj_set ps k v) = filter (\<lambda>e. fst e \<noteq> k) ps"
  by (simp add: obj_set_string_key filter_update_other)

lemma other_fields_updatedConfig:
  assumes "js_canonical (own_props d)"
  shows "filter (\<lambda>e. fst e \<noteq> ''scripts'') (own_props (updatedConfig d new))
         = filter (\<lambda>e. fst e \<noteq> ''scripts'') (own_props d)"
  using assms
  by (simp add: updatedConfig_def spread_canonical_id filter_obj_set_string_key[OF not_index_scripts])

text \<open>
  C4: for every input manifest (an object as JavaScript holds it), every write of the
  merge goes to the manifest's path and is the JSON text, with indentation 2, of the
  updated manifest, whose top-level fields other than \<open>scripts\<close> are those of the input,
  with the same values, in the same order.
\<close>

theorem C4_only_scripts_changes:
  assumes "js_canonical (own_props d)"
    and "BunWrite p c \<in> set (handleBuildScripts path d r)"
  shows "p = path \<and> c = JsonText (updatedConfig d createBuildScripts) 2
         \<and> filter (\<lambda>e. fst e \<noteq> ''scripts'') (own_props (updatedConfig d createBuildScripts))
           = filter (\<lambda>e. fst e \<noteq> ''scripts'') (own_props d)"
  using handleBuildScripts_writes_only[OF assms(2)] other_fields_updatedConfig[OF assms(1)]
  by simp

theorem C4_only_scripts_changes_witness:
  "js_canonical (own_props manifest_fields) \<and>
   BunWrite ''package.json''
      (JsonText (JObj [(''name'', JStr ''pkg''), (''version'', JStr ''1.0.0''),
           (''scripts'', JObj [(''build'', JStr ''bunup''), (''dev'', JStr ''bunup --watch'')]),
           (''private'', JBool True)]) 2)
     \<in> set (handleBuildScripts ''package.json'' manifest_fields (Answered True)) \<and>
   filter (\<lambda>e. fst e \<noteq> ''scripts'') (own_props (updatedConfig manifest_fields createBuildScripts))
     = [(''name'', JStr ''pkg''), (''version'', JStr ''1.0.0''), (''private'', JBool True)]"
proof -
  have ni: "\<not> is_array_index ''name''" "\<not> is_array_index ''version''"
    "\<not> is_array_index ''private''"
    by (simp_all add: is_array_index_def numeric_value_def digit_char_def)
  have a: "js_canonical (own_props manifest_fields)"
    by (simp add: js_canonical_def manifest_fields_def key_before_def ni not_index_scripts)
  have u: "updatedConfig manifest_fields createBuildScripts =
      JObj [(''name'', JStr ''pkg''), (''version'', JStr ''1.0.0''),
           (''scripts'', JObj [(''build'', JStr ''bunup''), (''dev'', JStr ''bunup --watch'')]),
           (''private'', JBool True)]"
    by (simp add: updatedConfig_def manifest_fields_def spread_def obj_set_def ni not_index_scripts
        not_index_build not_index_dev mergedScripts_def existingScriptsOf_def get_prop_def
        record_json_def createBuildScripts_def)
  have b: "BunWrite ''package.json'' (JsonText (updatedConfig manifest_fields createBuildScripts) 2)
     \<in> set (handleBuildScripts ''package.json'' manifest_fields (Answered True))"
    by (simp add: handleBuildScripts_cases)
  show ?thesis
    using C4_only_scripts_changes[OF a b] a b u by (simp add: manifest_fields_def)
qed

lemma reload_accept:
  "reload path d (handleBuildScripts path d (Answered True)) = updatedConfig d createBuildScripts"
  by (simp add: handleBuildScripts_cases reload_def)

lemma existing_of_updatedConfig:
  "existingScriptsOf (updatedConfig d new) = JObj (mergedScripts (existingScriptsOf d) new)"
  by (simp add: existingScriptsOf_def get_scripts_updatedConfig)

lemma map_of_spec_merged_build:
  "map_of (spec_mergedScripts ps createBuildScripts) ''build'' = Some (JStr ''bunup'')"
  unfolding spread_build_dev[symmetric]
  by (simp add: spread_def record_json_def createBuildScripts_def map_of_obj_set)

lemma map_of_spec_merged_dev:
  "map_of (spec_mergedScripts ps createBuildScripts) ''dev'' = Some (JStr ''bunup --watch'')"
  unfolding spread_build_dev[symmetric]
  by (simp add: spread_def record_json_def createBuildScripts_def map_of_obj_set)

lemma spread_build_dev_again:
  assumes "js_canonical ps"
    and "map_of ps ''build'' = Some (JStr ''bunup'')"
    and "map_of ps ''dev'' = Some (JStr ''bunup --watch'')"
  shows "spread ps (record_json createBuildScripts) = ps"
proof -
  have 1: "obj_set ps ''build'' (JStr ''bunup'') = ps"
    using assms(1,2) by (rule obj_set_same)
  have 2: "obj_set ps ''dev'' (JStr ''bunup --watch'') = ps"
    using assms(1,3) by (rule obj_set_same)
  show ?thesis
    by (simp add: spread_def record_json_def createBuildScripts_def 1 2)
qed

lemma mergedScripts_idem:
  "mergedScripts (JObj (mergedScripts e createBuildScripts)) createBuildScripts
     = mergedScripts e createBuildScripts"
proof -
  let ?M = "mergedScripts e createBuildScripts"
  have c: "js_canonical ?M" by (rule canonical_mergedScripts)
  have M: "?M = spec_mergedScripts (spread [] e) createBuildScripts"
    by (simp add: mergedScripts_def spread_build_dev)
  have b: "map_of ?M ''build'' = Some (JStr ''bunup'')"
    unfolding M by (rule map_of_spec_merged_build)
  have d: "map_of ?M ''dev'' = Some (JStr ''bunup --watch'')"
    unfolding M by (rule map_of_spec_merged_dev)
  have "mergedScripts (JObj ?M) createBuildScripts = spread ?M (record_json createBuildScripts)"
    using c by (simp add: mergedScripts_def spread_canonical_id)
  also have "\<dots> = ?M" using c b d by (rule spread_build_dev_again)
  finally show ?thesis .
qed

lemma updatedConfig_idem:
  "updatedConfig (updatedConfig d createBuildScripts) createBuildScripts
     = updatedConfig d createBuildScripts"
proof -
  let ?U = "updatedConfig d createBuildScripts"
  let ?M = "mergedScripts (existingScriptsOf d) createBuildScripts"
  have c: "js_canonical (own_props ?U)" by (rule canonical_updatedConfig)
  have s: "map_of (own_props ?U) ''scripts'' = Some (JObj ?M)"
    using get_scripts_updatedConfig[of d createBuildScripts] by (simp add: get_prop_def)
  have e: "existingScriptsOf ?U = JObj ?M" by (rule existing_of_updatedConfig)
  have "updatedConfig ?U createBuildScripts
        = JObj (obj_set (own_props ?U) ''scripts'' (JObj ?M))"
    unfolding updatedConfig_def[of ?U] e mergedScripts_idem using c
    by (simp add: spread_canonical_id)
  also have "\<dots> = JObj (own_props ?U)" using obj_set_same[OF c s] by simp
  also have "\<dots> = ?U" by (simp add: updatedConfig_def)
  finally show ?thesis .
qed

text \<open>
  C5: the merge is idempotent. Under the accept-every-conflict policy, running the merge
  on the manifest that a first run has left gives the same manifest as the first run
  alone, for every input manifest.
\<close>

theorem C5_merge_idempotent:
  "reload path (reload path d (handleBuildScripts path d (Answered True)))
     (handleBuildScripts path (reload path d (handleBuildScripts path d (Answered True)))
        (Answered True))
   = reload path d (handleBuildScripts path d (Answered True))"
  by (simp only: reload_accept updatedConfig_idem)

subsection \<open>The collection loops\<close>

lemma collectEntryFilesLoop_nonempty:
  "collectEntryFilesLoop fs collected rounds = Some files \<Longrightarrow> files \<noteq> []"
proof (induction rounds arbitrary: collected)
  case Nil
  then show ?case by simp
next
  case (Cons r rounds)
  obtain submitted more where r: "r = (submitted, more)" by (cases r)
  show ?case
  proof (cases "text_prompt (validateEntryFile fs collected) submitted")
    case None
    then show ?thesis using Cons.prems r by simp
  next
    case (Some entryFile)
    show ?thesis
    proof (cases "response_truthy more")
      case True
      then have "collectEntryFilesLoop fs (collected @ [entryFile]) rounds = Some files"
        using Cons.prems r Some by simp
      then show ?thesis by (rule Cons.IH)
    next
      case False
      then have "files = collected @ [entryFile]" using Cons.prems r Some by simp
      then show ?thesis by simp
    qed
  qed
qed

lemma collectEntryFilesForPackageLoop_nonempty:
  "collectEntryFilesForPackageLoop fs pj packageRoot collected rounds = Some files \<Longrightarrow> files \<noteq> []"
proof (induction rounds arbitrary: collected)
  case Nil
  then show ?case by simp
next
  case (Cons r rounds)
  obtain submitted more where r: "r = (submitted, more)" by (cases r)
  show ?case
  proof (cases "text_prompt (validatePackageEntryFile fs pj packageRoot collected) submitted")
    case None
    then show ?thesis using Cons.prems r by simp
  next
    case (Some entryFile)
    show ?thesis
    proof (cases "response_truthy more")
      case True
      then have "collectEntryFilesForPackageLoop fs pj packageRoot (collected @ [entryFile]) rounds
                 = Some files"
        using Cons.prems r Some by simp
      then show ?thesis by (rule Cons.IH)
    next
      case False
      then have "files = collected @ [entryFile]" using Cons.prems r Some by simp
      then show ?thesis by simp
    qed
  qed
qed

lemma collectWorkspacePackagesLoop_nonempty:
  "collectWorkspacePackagesLoop fs pj packages rounds = Some pkgs \<Longrightarrow>
   list_all (\<lambda>p. entryFiles p \<noteq> []) packages \<Longrightarrow>
   pkgs \<noteq> [] \<and> list_all (\<lambda>p. entryFiles p \<noteq> []) pkgs"
proof (induction rounds arbitrary: packages)
  case Nil
  then show ?case by simp
next
  case (Cons r rounds)
  from Cons.prems(1) obtain packageName where n:
    "text_prompt (validatePackageName packages) (nameSubmitted r) = Some packageName"
    by (auto split: option.splits)
  from Cons.prems(1) n obtain packageRoot where rt:
    "text_prompt (validatePackageRoot fs) (rootSubmitted r) = Some packageRoot"
    by (auto split: option.splits)
  from Cons.prems(1) n rt obtain files where f:
    "collectEntryFilesForPackage fs pj packageRoot (entryRounds r) = Some files"
    by (auto split: option.splits)
  have fne: "files \<noteq> []"
    using f collectEntryFilesForPackageLoop_nonempty
    by (simp add: collectEntryFilesForPackage_def)
  let ?pushed = "packages @ [\<lparr>name = packageName, root = packageRoot, entryFiles = files,
                               outputFormats = selectedFormats r\<rparr>]"
  have inv: "list_all (\<lambda>p. entryFiles p \<noteq> []) ?pushed"
    using Cons.prems(2) fne by simp
  show ?case
  proof (cases "response_truthy (addAnotherPackage r)")
    case True
    then have "collectWorkspacePackagesLoop fs pj ?pushed rounds = Some pkgs"
      using Cons.prems(1) n rt f by simp
    then show ?thesis using inv by (rule Cons.IH)
  next
    case False
    then have "pkgs = ?pushed" using Cons.prems(1) n rt f by simp
    then show ?thesis using inv by simp
  qed
qed

lemma init_config_from_collections:
  assumes "init env ans = (es, st)" and "BunWrite p (Text c) \<in> set es"
  shows "(\<exists>files. collectEntryFiles (fileSystem env) (singleEntryRounds ans) = Some files
            \<and> c = createConfigFileContent files (singleFormats ans) (selectedPlugins ans))
         \<or> (\<exists>pkgs. collectWorkspacePackages (fileSystem env) (pathJoin env) (packageRounds ans)
                     = Some pkgs
            \<and> c = createWorkspaceConfigFileContent pkgs (selectedPlugins ans))"
  using assms
  by (auto simp: init_def initializeSinglePackage_def initializeWorkspace_def Let_def
      handleBuildScripts_def handleWorkspaceBuildScripts_def mergeBuildScripts_cases
      split: option.splits if_splits)

lemma ws_example:
  "collectWorkspacePackages example_fs (\<lambda>a b. a @ ''/'' @ b) [example_package_round]
     = Some [\<lparr>name = ''core'', root = ''packages/core'', entryFiles = [''src/index.ts''],
              outputFormats = [''esm'', ''cjs'']\<rparr>]"
  by (simp add: collectWorkspacePackages_def example_package_round_def validatePackageName_def
      validatePackageRoot_def collectEntryFilesForPackage_def validatePackageEntryFile_def
      example_fs_def)

text \<open>
  C10: each collection loop of the init flow pushes an item before it asks whether to go
  on, so whenever a loop returns, its result is not empty: the entry files of the
  single-package flow, the entry files of a package, and the packages of the workspace
  flow, each of which has at least one entry file. Every configuration text that an init
  run writes is rendered from such a collection.
\<close>

theorem C10_collections_nonempty:
  "(collectEntryFiles fs rounds = Some files \<longrightarrow> files \<noteq> [])
   \<and> (collectEntryFilesForPackage fs pj packageRoot rounds' = Some files' \<longrightarrow> files' \<noteq> [])
   \<and> (collectWorkspacePackages fs pj prounds = Some pkgs \<longrightarrow>
        pkgs \<noteq> [] \<and> list_all (\<lambda>p. entryFiles p \<noteq> []) pkgs)
   \<and> (init env ans = (es, st) \<and> BunWrite p (Text c) \<in> set es \<longrightarrow>
        (\<exists>fl. fl \<noteq> [] \<and> c = createConfigFileContent fl (singleFormats ans) (selectedPlugins ans))
        \<or> (\<exists>pk. pk \<noteq> [] \<and> list_all (\<lambda>p. entryFiles p \<noteq> []) pk
              \<and> c = createWorkspaceConfigFileContent pk (selectedPlugins ans)))"
proof -
  have 1: "collectEntryFiles fs rounds = Some files \<longrightarrow> files \<noteq> []" for fs rounds files
    using collectEntryFilesLoop_nonempty[of fs "[]" rounds files]
    by (simp add: collectEntryFiles_def)
  have 2: "collectEntryFilesForPackage fs pj packageRoot rounds' = Some files' \<longrightarrow> files' \<noteq> []"
    using collectEntryFilesForPackageLoop_nonempty[of fs pj packageRoot "[]" rounds' files']
    by (simp add: collectEntryFilesForPackage_def)
  have 3: "collectWorkspacePackages fs pj prounds = Some pkgs \<longrightarrow>
        pkgs \<noteq> [] \<and> list_all (\<lambda>p. entryFiles p \<noteq> []) pkgs" for fs pj prounds pkgs
    using collectWorkspacePackagesLoop_nonempty[of fs pj "[]" prounds pkgs]
    by (simp add: collectWorkspacePackages_def)
  have 4: "init env ans = (es, st) \<and> BunWrite p (Text c) \<in> set es \<longrightarrow>
        (\<exists>fl. fl \<noteq> [] \<and> c = createConfigFileContent fl (singleFormats ans) (selectedPlugins ans))
        \<or> (\<exists>pk. pk \<noteq> [] \<and> list_all (\<lambda>p. entryFiles p \<noteq> []) pk
              \<and> c = createWorkspaceConfigFileContent pk (selectedPlugins ans))"
  proof
    assume h: "init env ans = (es, st) \<and> BunWrite p (Text c) \<in> set es"
    then have h1: "init env ans = (es, st)" and h2: "BunWrite p (Text c) \<in> set es"
      by simp_all
    from init_config_from_collections[OF h1 h2]
    show "(\<exists>fl. fl \<noteq> [] \<and> c = createConfigFileContent fl (singleFormats ans) (selectedPlugins ans))
        \<or> (\<exists>pk. pk \<noteq> [] \<and> list_all (\<lambda>p. entryFiles p \<noteq> []) pk
              \<and> c = createWorkspaceConfigFileContent pk (selectedPlugins ans))"
    proof (elim disjE exE conjE)
      fix fl
      assume a: "collectEntryFiles (fileSystem env) (singleEntryRounds ans) = Some fl"
        and b: "c = createConfigFileContent fl (singleFormats ans) (selectedPlugins ans)"
      have "fl \<noteq> []" using 1 a by simp
      then have "\<exists>fl. fl \<noteq> [] \<and> c = createConfigFileContent fl (singleFormats ans) (selectedPlugins ans)"
        using b by (intro exI[of _ fl]) simp
      then show ?thesis by (rule disjI1)
    next
      fix pk
      assume a: "collectWorkspacePackages (fileSystem env) (pathJoin env) (packageRounds ans) = Some pk"
        and b: "c = createWorkspaceConfigFileContent pk (selectedPlugins ans)"
      have "pk \<noteq> [] \<and> list_all (\<lambda>p. entryFiles p \<noteq> []) pk" using 3 a by simp
      then have "\<exists>pk. pk \<noteq> [] \<and> list_all (\<lambda>p. entryFiles p \<noteq> []) pk
              \<and> c = createWorkspaceConfigFileContent pk (selectedPlugins ans)"
        using b by (intro exI[of _ pk]) simp
      then show ?thesis by (rule disjI2)
    qed
  qed
  show ?thesis by (intro conjI 1 2 3 4)
qed

theorem C10_collections_nonempty_witness:
  "collectEntryFiles example_fs [([''missing.ts'', ''src/index.ts''], Answered False)]
     = Some [''src/index.ts'']
   \<and> collectEntryFilesForPackage example_fs (\<lambda>a b. a @ ''/'' @ b) ''packages/core''
       [([''src/index.ts''], Answered False)] = Some [''src/index.ts'']
   \<and> collectWorkspacePackages example_fs (\<lambda>a b. a @ ''/'' @ b) [example_package_round]
     = Some [\<lparr>name = ''core'', root = ''packages/core'', entryFiles = [''src/index.ts''],
              outputFormats = [''esm'', ''cjs'']\<rparr>]
   \<and> [''src/index.ts''] \<noteq> []
   \<and> BunWrite ''bunup.config.ts''
        (Text (createConfigFileContent [''src/index.ts''] [''esm'', ''cjs''] []))
       \<in> set (fst (init example_init_env example_init_answers))"
proof -
  have a: "collectEntryFiles example_fs [([''missing.ts'', ''src/index.ts''], Answered False)]
     = Some [''src/index.ts'']"
    by (simp add: collectEntryFiles_def validateEntryFile_def example_fs_def)
  have b: "collectEntryFilesForPackage example_fs (\<lambda>a b. a @ ''/'' @ b) ''packages/core''
       [([''src/index.ts''], Answered False)] = Some [''src/index.ts'']"
    by (simp add: collectEntryFilesForPackage_def validatePackageEntryFile_def example_fs_def)
  have d: "BunWrite ''bunup.config.ts''
        (Text (createConfigFileContent [''src/index.ts''] [''esm'', ''cjs''] []))
       \<in> set (fst (init example_init_env example_init_answers))"
    unfolding init_example by simp
  show ?thesis
    using C10_collections_nonempty[of example_fs
        "[([''missing.ts'', ''src/index.ts''], Answered False)]" "[''src/index.ts'']"
        "\<lambda>a b. a @ ''/'' @ b" "''packages/core''" "[([''src/index.ts''], Answered False)]"
        "[''src/index.ts'']" "[example_package_round]"
        "[\<lparr>name = ''core'', root = ''packages/core'', entryFiles = [''src/index.ts''],
              outputFormats = [''esm'', ''cjs'']\<rparr>]"]
      a b d ws_example
    by simp
qed

subsection \<open>The configuration renderer\<close>

lemma occurs_in_prefix: "prefix n h \<Longrightarrow> occurs_in n h"
  by (cases h) auto

lemma occurs_in_append: "occurs_in n (a @ n @ b)"
  by (induction a) (simp_all add: occurs_in_prefix)

lemma join_with_separated: "join_with sep xs = separated sep xs"
  by (induction sep xs rule: join_with.induct) (simp_all add: separated_def)

lemma map_quoted: "map quoted xs = map (\<lambda>x. [CHR 0x27] @ x @ [CHR 0x27]) xs"
  by (simp add: quoted_def)

lemma packageBlock_expected: "packageBlock pkg = expectedPackageBlock pkg"
  by (simp add: packageBlock_def expectedPackageBlock_def join_with_separated map_quoted
      quotedArray_def quoted_def NL_def)

lemma map_packageBlock: "map packageBlock pkgs = map expectedPackageBlock pkgs"
  by (simp add: packageBlock_expected)

lemma single_text:
  "createConfigFileContent entries formats plugins =
     (if plugins = []
      then ''import { defineConfig } from 'bunup'\<newline>\<newline>export default defineConfig({\<newline>''
             @ [CHR 0x09] @ ''entry: ['' @ quotedArray entries @ ''],\<newline>''
             @ [CHR 0x09] @ ''format: ['' @ quotedArray formats @ ''],\<newline>})\<newline>''
      else ''import { defineConfig } from 'bunup'\<newline>'' @ pluginImportLine plugins
             @ ''\<newline>\<newline>export default defineConfig({\<newline>''
             @ [CHR 0x09] @ ''entry: ['' @ quotedArray entries @ ''],\<newline>''
             @ [CHR 0x09] @ ''format: ['' @ quotedArray formats @ ''],,\<newline>''
             @ [CHR 0x09] @ pluginsKey plugins @ ''\<newline>})\<newline>'')"
  by (simp add: createConfigFileContent_def Let_def join_with_separated map_quoted
      quotedArray_def pluginImportLine_def pluginsKey_def pluginCalls_def quoted_def NL_def
      TAB_def)

lemma workspace_text:
  "createWorkspaceConfigFileContent pkgs plugins =
     (if plugins = []
      then ''import { defineWorkspace } from 'bunup'\<newline>\<newline>export default defineWorkspace([\<newline>''
             @ separated '',\<newline>'' (map expectedPackageBlock pkgs) @ ''\<newline>])\<newline>''
      else ''import { defineWorkspace } from 'bunup'\<newline>'' @ pluginImportLine plugins
             @ ''\<newline>\<newline>export default defineWorkspace([\<newline>''
             @ separated '',\<newline>'' (map expectedPackageBlock pkgs) @ ''\<newline>],\<newline>''
             @ sharedPluginsBlock plugins @ '')\<newline>'')"
  by (simp add: createWorkspaceConfigFileContent_def Let_def map_packageBlock join_with_separated
      pluginImportLine_def pluginsKey_def pluginCalls_def sharedPluginsBlock_def quoted_def
      NL_def)

lemma single_emits_plugins:
  assumes "plugins \<noteq> []"
  shows "occurs_in (pluginImportLine plugins) (createConfigFileContent entries formats plugins)"
    and "occurs_in (pluginsKey plugins) (createConfigFileContent entries formats plugins)"
proof -
  let ?out = "createConfigFileContent entries formats plugins"
  have 1: "?out =
     ''import { defineConfig } from 'bunup'\<newline>'' @ pluginImportLine plugins
       @ (''\<newline>\<newline>export default defineConfig({\<newline>''
             @ [CHR 0x09] @ ''entry: ['' @ quotedArray entries @ ''],\<newline>''
             @ [CHR 0x09] @ ''format: ['' @ quotedArray formats @ ''],,\<newline>''
             @ [CHR 0x09] @ pluginsKey plugins @ ''\<newline>})\<newline>'')"
    using assms by (simp add: single_text)
  show "occurs_in (pluginImportLine plugins) ?out" unfolding 1 by (rule occurs_in_append)
  have 2: "?out =
     (''import { defineConfig } from 'bunup'\<newline>'' @ pluginImportLine plugins
             @ ''\<newline>\<newline>export default defineConfig({\<newline>''
             @ [CHR 0x09] @ ''entry: ['' @ quotedArray entries @ ''],\<newline>''
             @ [CHR 0x09] @ ''format: ['' @ quotedArray formats @ ''],,\<newline>''
             @ [CHR 0x09]) @ pluginsKey plugins @ ''\<newline>})\<newline>''"
    using assms by (simp add: single_text)
  show "occurs_in (pluginsKey plugins) ?out" unfolding 2 by (rule occurs_in_append)
qed

lemma workspace_emits_plugins:
  assumes "plugins \<noteq> []"
  shows "occurs_in (pluginImportLine plugins) (createWorkspaceConfigFileContent pkgs plugins)"
    and "occurs_in (sharedPluginsBlock plugins) (createWorkspaceConfigFileContent pkgs plugins)"
proof -
  let ?out = "createWorkspaceConfigFileContent pkgs plugins"
  have 1: "?out =
     ''import { defineWorkspace } from 'bunup'\<newline>'' @ pluginImportLine plugins
       @ (''\<newline>\<newline>export default defineWorkspace([\<newline>''
             @ separated '',\<newline>'' (map expectedPackageBlock pkgs) @ ''\<newline>],\<newline>''
             @ sharedPluginsBlock plugins @ '')\<newline>'')"
    using assms by (simp add: workspace_text)
  show "occurs_in (pluginImportLine plugins) ?out" unfolding 1 by (rule occurs_in_append)
  have 2: "?out =
     (''import { defineWorkspace } from 'bunup'\<newline>'' @ pluginImportLine plugins
             @ ''\<newline>\<newline>export default defineWorkspace([\<newline>''
             @ separated '',\<newline>'' (map expectedPackageBlock pkgs) @ ''\<newline>],\<newline>'')
       @ sharedPluginsBlock plugins @ '')\<newline>''"
    using assms by (simp add: workspace_text)
  show "occurs_in (sharedPluginsBlock plugins) ?out" unfolding 2 by (rule occurs_in_append)
qed

text \<open>
  C8: for every entry-file list, format list and plugin list, and for every package list
  in the workspace shape, the rendered text is one of two texts. With zero plugins it
  has the single import line and no plugins key: nothing stands where the plugin import
  line and the plugins block would be. With at least one plugin it is the same text with
  the plugin import line after the first import and the plugins block after the format
  array (single package) or after the package array (workspace), and both occur in it.
  Every entry and every format tag stands between single quotes.
\<close>

theorem C8_plugins_iff_selected:
  "createConfigFileContent entries formats plugins =
     (if plugins = []
      then ''import { defineConfig } from 'bunup'\<newline>\<newline>export default defineConfig({\<newline>''
             @ [CHR 0x09] @ ''entry: ['' @ quotedArray entries @ ''],\<newline>''
             @ [CHR 0x09] @ ''format: ['' @ quotedArray formats @ ''],\<newline>})\<newline>''
      else ''import { defineConfig } from 'bunup'\<newline>'' @ pluginImportLine plugins
             @ ''\<newline>\<newline>export default defineConfig({\<newline>''
             @ [CHR 0x09] @ ''entry: ['' @ quotedArray entries @ ''],\<newline>''
             @ [CHR 0x09] @ ''format: ['' @ quotedArray formats @ ''],,\<newline>''
             @ [CHR 0x09] @ pluginsKey plugins @ ''\<newline>})\<newline>'')
   \<and> createWorkspaceConfigFileContent pkgs plugins =
     (if plugins = []
      then ''import { defineWorkspace } from 'bunup'\<newline>\<newline>export default defineWorkspace([\<newline>''
             @ separated '',\<newline>'' (map expectedPackageBlock pkgs) @ ''\<newline>])\<newline>''
      else ''import { defineWorkspace } from 'bunup'\<newline>'' @ pluginImportLine plugins
             @ ''\<newline>\<newline>export default defineWorkspace([\<newline>''
             @ separated '',\<newline>'' (map expectedPackageBlock pkgs) @ ''\<newline>],\<newline>''
             @ sharedPluginsBlock plugins @ '')\<newline>'')
   \<and> (plugins \<noteq> [] \<longrightarrow>
        occurs_in (pluginImportLine plugins) (createConfigFileContent entries formats plugins)
        \<and> occurs_in (pluginsKey plugins) (createConfigFileContent entries formats plugins)
        \<and> occurs_in (pluginImportLine plugins) (createWorkspaceConfigFileContent pkgs plugins)
        \<and> occurs_in (sharedPluginsBlock plugins) (createWorkspaceConfigFileContent pkgs plugins))"
proof -
  have 3: "plugins \<noteq> [] \<longrightarrow>
        occurs_in (pluginImportLine plugins) (createConfigFileContent entries formats plugins)
        \<and> occurs_in (pluginsKey plugins) (createConfigFileContent entries formats plugins)
        \<and> occurs_in (pluginImportLine plugins) (createWorkspaceConfigFileContent pkgs plugins)
        \<and> occurs_in (sharedPluginsBlock plugins) (createWorkspaceConfigFileContent pkgs plugins)"
    using single_emits_plugins workspace_emits_plugins by simp
  show ?thesis by (intro conjI single_text workspace_text 3)
qed

text \<open>The rendered texts of the examples, character by character: a tab is \<open>CHR 0x09\<close>,
  a single quote inside a literal stands for itself.\<close>

theorem C8_plugins_iff_selected_witness:
  "createConfigFileContent [''src/index.ts''] [''esm'', ''cjs''] [] =
     ''import { defineConfig } from 'bunup'\<newline>\<newline>export default defineConfig({\<newline>''
       @ [CHR 0x09] @ ''entry: ['src/index.ts'],\<newline>''
       @ [CHR 0x09] @ ''format: ['esm', 'cjs'],\<newline>})\<newline>''
   \<and> \<not> occurs_in ''plugins'' (createConfigFileContent [''src/index.ts''] [''esm'', ''cjs''] [])
   \<and> [''exports''] \<noteq> []
   \<and> createConfigFileContent [''src/index.ts''] [''esm'', ''cjs''] [''exports''] =
     ''import { defineConfig } from 'bunup'\<newline>import { exports } from 'bunup/plugins'\<newline>\<newline>export default defineConfig({\<newline>''
       @ [CHR 0x09] @ ''entry: ['src/index.ts'],\<newline>''
       @ [CHR 0x09] @ ''format: ['esm', 'cjs'],,\<newline>''
       @ [CHR 0x09] @ ''plugins: [exports()],\<newline>})\<newline>''
   \<and> occurs_in (''import { exports } from 'bunup/plugins'' @ [CHR 0x27])
        (createConfigFileContent [''src/index.ts''] [''esm'', ''cjs''] [''exports''])
   \<and> occurs_in ''plugins: [exports()],''
        (createConfigFileContent [''src/index.ts''] [''esm'', ''cjs''] [''exports''])
   \<and> createWorkspaceConfigFileContent [example_package] [] =
     ''import { defineWorkspace } from 'bunup'\<newline>\<newline>export default defineWorkspace([\<newline>  {\<newline>    name: 'core',\<newline>    root: 'packages/core',\<newline>    config: {\<newline>      entry: ['src/index.ts'],\<newline>      format: ['esm', 'cjs'],\<newline>    },\<newline>  }\<newline>])\<newline>''
   \<and> \<not> occurs_in ''plugins'' (createWorkspaceConfigFileContent [example_package] [])
   \<and> createWorkspaceConfigFileContent [example_package] [''exports'', ''unused''] =
     ''import { defineWorkspace } from 'bunup'\<newline>import { exports, unused } from 'bunup/plugins'\<newline>\<newline>export default defineWorkspace([\<newline>  {\<newline>    name: 'core',\<newline>    root: 'packages/core',\<newline>    config: {\<newline>      entry: ['src/index.ts'],\<newline>      format: ['esm', 'cjs'],\<newline>    },\<newline>  }\<newline>],\<newline>  {\<newline>    // Shared configuration applied to all packages\<newline>    plugins: [exports(), unused()],\<newline>  })\<newline>''"
proof -
  note single0 = C8_plugins_iff_selected[of "[''src/index.ts'']" "[''esm'', ''cjs'']" "[]"
      "[example_package]", THEN conjunct1]
  note ws0 = C8_plugins_iff_selected[of "[''src/index.ts'']" "[''esm'', ''cjs'']" "[]"
      "[example_package]", THEN conjunct2, THEN conjunct1]
  note single1 = C8_plugins_iff_selected[of "[''src/index.ts'']" "[''esm'', ''cjs'']"
      "[''exports'']" "[example_package]", THEN conjunct1]
  note ws2 = C8_plugins_iff_selected[of "[''src/index.ts'']" "[''esm'', ''cjs'']"
      "[''exports'', ''unused'']" "[example_package]", THEN conjunct2, THEN conjunct1]
  have ne: "[''exports''] \<noteq> ([] :: string list)" by simp
  note emits = C8_plugins_iff_selected[of "[''src/index.ts'']" "[''esm'', ''cjs'']"
      "[''exports'']" "[example_package]", THEN conjunct2, THEN conjunct2, THEN mp, OF ne]
  have c1: "createConfigFileContent [''src/index.ts''] [''esm'', ''cjs''] [] =
     ''import { defineConfig } from 'bunup'\<newline>\<newline>export default defineConfig({\<newline>''
       @ [CHR 0x09] @ ''entry: ['src/index.ts'],\<newline>''
       @ [CHR 0x09] @ ''format: ['esm', 'cjs'],\<newline>})\<newline>''"
    using single0 by (simp add: quotedArray_def separated_def)
  have c2: "\<not> occurs_in ''plugins'' (createConfigFileContent [''src/index.ts''] [''esm'', ''cjs''] [])"
    unfolding c1 by simp
  have c3: "createConfigFileContent [''src/index.ts''] [''esm'', ''cjs''] [''exports''] =
     ''import { defineConfig } from 'bunup'\<newline>import { exports } from 'bunup/plugins'\<newline>\<newline>export default defineConfig({\<newline>''
       @ [CHR 0x09] @ ''entry: ['src/index.ts'],\<newline>''
       @ [CHR 0x09] @ ''format: ['esm', 'cjs'],,\<newline>''
       @ [CHR 0x09] @ ''plugins: [exports()],\<newline>})\<newline>''"
    using single1
    by (simp add: quotedArray_def separated_def pluginImportLine_def pluginsKey_def
        pluginCalls_def)
  have a: "pluginImportLine [''exports''] = ''import { exports } from 'bunup/plugins'' @ [CHR 0x27]"
    by (simp add: pluginImportLine_def separated_def)
  have b: "pluginsKey [''exports''] = ''plugins: [exports()],''"
    by (simp add: pluginsKey_def pluginCalls_def separated_def)
  have c4: "occurs_in (''import { exports } from 'bunup/plugins'' @ [CHR 0x27])
        (createConfigFileContent [''src/index.ts''] [''esm'', ''cjs''] [''exports''])"
    using emits[THEN conjunct1] unfolding a .
  have c5: "occurs_in ''plugins: [exports()],''
        (createConfigFileContent [''src/index.ts''] [''esm'', ''cjs''] [''exports''])"
    using emits[THEN conjunct2, THEN conjunct1] unfolding b .
  have c6: "createWorkspaceConfigFileContent [example_package] [] =
     ''import { defineWorkspace } from 'bunup'\<newline>\<newline>export default defineWorkspace([\<newline>  {\<newline>    name: 'core',\<newline>    root: 'packages/core',\<newline>    config: {\<newline>      entry: ['src/index.ts'],\<newline>      format: ['esm', 'cjs'],\<newline>    },\<newline>  }\<newline>])\<newline>''"
    using ws0
    by (simp add: quotedArray_def separated_def expectedPackageBlock_def example_package_def)
  have c7: "\<not> occurs_in ''plugins'' (createWorkspaceConfigFileContent [example_package] [])"
    unfolding c6 by simp
  have c8: "createWorkspaceConfigFileContent [example_package] [''exports'', ''unused''] =
     ''import { defineWorkspace } from 'bunup'\<newline>import { exports, unused } from 'bunup/plugins'\<newline>\<newline>export default defineWorkspace([\<newline>  {\<newline>    name: 'core',\<newline>    root: 'packages/core',\<newline>    config: {\<newline>      entry: ['src/index.ts'],\<newline>      format: ['esm', 'cjs'],\<newline>    },\<newline>  }\<newline>],\<newline>  {\<newline>    // Shared configuration applied to all packages\<newline>    plugins: [exports(), unused()],\<newline>  })\<newline>''"
    using ws2
    by (simp add: quotedArray_def separated_def expectedPackageBlock_def example_package_def
        pluginImportLine_def pluginsKey_def pluginCalls_def sharedPluginsBlock_def)
  show ?thesis by (intro conjI c1 c2 ne c3 c4 c5 c6 c7 c8)
qed

subsection \<open>The project name\<close>

lemma validateProjectName_None_iff:
  "validateProjectName env v = None \<longleftrightarrow>
     v \<noteq> [] \<and> CHR '' '' \<notin> set v \<and> \<not> pathExistsSync env (getProjectPath env v)"
  by (simp add: validateProjectName_def)

lemma text_prompt_valid:
  "text_prompt validate submitted = Some v \<Longrightarrow> validate v = None"
  by (induction submitted) (auto split: option.splits)

lemma resolve_prompted:
  "projectNameFromCli = None \<or> projectNameFromCli = Some [] \<Longrightarrow>
   resolveProjectName env projectNameFromCli submitted
     = text_prompt (validateProjectName env) submitted"
  by (auto simp: resolveProjectName_def)

lemma createProject_name:
  "createProject templates env cli ans = Proceeds sc \<Longrightarrow>
   resolveProjectName env cli (projectNameSubmitted ans) = Some (projectName sc)"
  by (auto simp: createProject_def Let_def split: option.splits)

text \<open>
  C9 (amended): every project name that the create flow takes from its prompt and
  proceeds with is non-empty, contains no space character, and does not collide with an
  existing path at the target location. A submitted value that breaks one of these three
  rules is answered with the message of the first rule it breaks, and the prompt goes on
  with what the user submits next: the flow is not aborted.
\<close>

theorem C9_prompted_name_valid:
  assumes "projectNameFromCli = None \<or> projectNameFromCli = Some []"
  shows "(createProject templates env projectNameFromCli ans = Proceeds sc \<longrightarrow>
            projectName sc \<noteq> [] \<and> CHR '' '' \<notin> set (projectName sc)
            \<and> \<not> pathExistsSync env (getProjectPath env (projectName sc)))
         \<and> (v = [] \<or> CHR '' '' \<in> set v \<or> pathExistsSync env (getProjectPath env v) \<longrightarrow>
              validateProjectName env v =
                Some (if v = [] then ''Project name is required''
                      else if CHR '' '' \<in> set v then ''Project name cannot contain spaces''
                      else ''Project already exists'')
              \<and> resolveProjectName env projectNameFromCli (v # rest)
                  = resolveProjectName env projectNameFromCli rest
              \<and> text_prompt_messages (validateProjectName env) (v # rest)
                  = (if v = [] then ''Project name is required''
                     else if CHR '' '' \<in> set v then ''Project name cannot contain spaces''
                     else ''Project already exists'')
                    # text_prompt_messages (validateProjectName env) rest)"
proof -
  have 1: "projectName sc \<noteq> [] \<and> CHR '' '' \<notin> set (projectName sc)
            \<and> \<not> pathExistsSync env (getProjectPath env (projectName sc))"
    if "createProject templates env projectNameFromCli ans = Proceeds sc"
  proof -
    have "text_prompt (validateProjectName env) (projectNameSubmitted ans) = Some (projectName sc)"
      using createProject_name[OF that] resolve_prompted[OF assms] by simp
    then have "validateProjectName env (projectName sc) = None" by (rule text_prompt_valid)
    then show ?thesis by (simp add: validateProjectName_None_iff)
  qed
  have 2: "validateProjectName env v =
                Some (if v = [] then ''Project name is required''
                      else if CHR '' '' \<in> set v then ''Project name cannot contain spaces''
                      else ''Project already exists'')
              \<and> resolveProjectName env projectNameFromCli (v # rest)
                  = resolveProjectName env projectNameFromCli rest
              \<and> text_prompt_messages (validateProjectName env) (v # rest)
                  = (if v = [] then ''Project name is required''
                     else if CHR '' '' \<in> set v then ''Project name cannot contain spaces''
                     else ''Project already exists'')
                    # text_prompt_messages (validateProjectName env) rest"
    if "v = [] \<or> CHR '' '' \<in> set v \<or> pathExistsSync env (getProjectPath env v)"
  proof -
    have m: "validateProjectName env v =
                Some (if v = [] then ''Project name is required''
                      else if CHR '' '' \<in> set v then ''Project name cannot contain spaces''
                      else ''Project already exists'')"
      using that by (auto simp: validateProjectName_def)
    then show ?thesis using resolve_prompted[OF assms] by simp
  qed
  show ?thesis using 1 2 by blast
qed

theorem C9_prompted_name_valid_witness:
  "createProject TEMPLATES example_env None
      (example_create_answers\<lparr>projectNameSubmitted := [ [], ''my lib'', ''taken'', ''my-lib'']\<rparr>)
     = Proceeds \<lparr>scaffoldTemplate = TEMPLATES ! 1, selectedVariant = Full, useMonorepo = False,
                 projectName = ''my-lib'', projectPath = ''/home/dev/my-lib'',
                 templateDir = ''react-lib''\<rparr>
   \<and> ''my-lib'' \<noteq> [] \<and> CHR '' '' \<notin> set ''my-lib''
   \<and> \<not> pathExistsSync example_env (getProjectPath example_env ''my-lib'')
   \<and> validateProjectName example_env ''my lib'' = Some ''Project name cannot contain spaces''
   \<and> resolveProjectName example_env None [''my lib'', ''my-lib'']
       = resolveProjectName example_env None [''my-lib'']
   \<and> text_prompt_messages (validateProjectName example_env) [''my lib'', ''my-lib'']
       = [''Project name cannot contain spaces'']"
proof -
  have p: "createProject TEMPLATES example_env None
      (example_create_answers\<lparr>projectNameSubmitted := [ [], ''my lib'', ''taken'', ''my-lib'']\<rparr>)
     = Proceeds \<lparr>scaffoldTemplate = TEMPLATES ! 1, selectedVariant = Full, useMonorepo = False,
                 projectName = ''my-lib'', projectPath = ''/home/dev/my-lib'',
                 templateDir = ''react-lib''\<rparr>"
    by (simp add: createProject_def TEMPLATES_def example_create_answers_def
        resolveProjectName_def getProjectPath_def example_env_def getTemplateDir_def
        pathExistsSync_def validateProjectName_def)
  have s: "CHR '' '' \<in> set ''my lib''" by simp
  have m: "text_prompt_messages (validateProjectName example_env) [''my-lib''] = []"
    by (simp add: validateProjectName_def getProjectPath_def example_env_def pathExistsSync_def)
  have n: "(None :: string option) = None \<or> (None :: string option) = Some []" by simp
  show ?thesis
    using C9_prompted_name_valid[OF n, of TEMPLATES example_env
        "example_create_answers\<lparr>projectNameSubmitted := [ [], ''my lib'', ''taken'', ''my-lib'']\<rparr>"
        "\<lparr>scaffoldTemplate = TEMPLATES ! 1, selectedVariant = Full, useMonorepo = False,
                 projectName = ''my-lib'', projectPath = ''/home/dev/my-lib'',
                 templateDir = ''react-lib''\<rparr>" "''my lib''" "[''my-lib'']"] p s m
    by simp
qed

text \<open>
  C9, as stated, fails: a name given on the command line is proceeded with unchecked,
  whether it contains a space (\<open>my lib\<close>) or collides with an existing path (\<open>taken\<close>);
  and the prompt, which tests for the space character only, accepts a name that contains
  a tab.
\<close>

theorem C9_counterexample:
  "createProject TEMPLATES example_env (Some ''my lib'') example_create_answers
     = Proceeds \<lparr>scaffoldTemplate = TEMPLATES ! 1, selectedVariant = Full, useMonorepo = False,
                 projectName = ''my lib'', projectPath = ''/home/dev/my lib'',
                 templateDir = ''react-lib''\<rparr>
   \<and> CHR '' '' \<in> set ''my lib''
   \<and> createProject TEMPLATES example_env (Some ''taken'') example_create_answers
     = Proceeds \<lparr>scaffoldTemplate = TEMPLATES ! 1, selectedVariant = Full, useMonorepo = False,
                 projectName = ''taken'', projectPath = ''/home/dev/taken'',
                 templateDir = ''react-lib''\<rparr>
   \<and> pathExistsSync example_env (getProjectPath example_env ''taken'')
   \<and> resolveProjectName example_env None [ [CHR ''a'', CHR 0x09, CHR ''b'']] = Some [CHR ''a'', CHR 0x09, CHR ''b'']"
  by (simp add: createProject_def TEMPLATES_def example_create_answers_def resolveProjectName_def
      getProjectPath_def example_env_def getTemplateDir_def pathExistsSync_def
      validateProjectName_def)

subsection \<open>Template directory resolution\<close>

text \<open>What the code computes, for any descriptor: \<^verbatim>\<open>||\<close> takes the \<open>full\<close> directory when
  the variant key is absent and when the directory under it is the empty string.\<close>

lemma getTemplateDir_cases:
  "getTemplateDir t v um =
     (let m = chosenMapping t um
      in case variantDir m v of
           None \<Rightarrow> full m
         | Some d \<Rightarrow> if d = [] then full m else d)"
  by (cases um; cases "monorepo t"; cases "variantDir (chosenMapping t um) v")
     (simp_all add: getTemplateDir_def chosenMapping_def)

lemma getTemplateDir_spec_named:
  assumes "basicDirsNamed t"
  shows "getTemplateDir t v um = spec_templateDir t v um"
proof (cases "monorepo t")
  case None
  then show ?thesis
    using assms
    by (cases v; cases "basic (variants t)"; cases um)
       (simp_all add: getTemplateDir_def spec_templateDir_def spec_lookup_def chosenMapping_def
         basicDirsNamed_def)
next
  case (Some m)
  then show ?thesis
    using assms
    by (cases v; cases "basic (variants t)"; cases "basic m"; cases um)
       (simp_all add: getTemplateDir_def spec_templateDir_def spec_lookup_def chosenMapping_def
         basicDirsNamed_def)
qed

lemma TEMPLATES_basicDirsNamed: "t \<in> set TEMPLATES \<Longrightarrow> basicDirsNamed t"
  by (auto simp: TEMPLATES_def basicDirsNamed_def)

lemma getTemplateDir_TEMPLATES:
  "t \<in> set TEMPLATES \<Longrightarrow> getTemplateDir t v um = spec_templateDir t v um"
  by (rule getTemplateDir_spec_named) (rule TEMPLATES_basicDirsNamed)

text \<open>The example of the specification: a descriptor with only a \<open>full\<close> monorepo
  mapping, variant \<open>basic\<close> selected, monorepo chosen, resolves to the \<open>full\<close> monorepo
  directory.\<close>

lemma getTemplateDir_only_full_monorepo:
  "monorepo t = Some \<lparr>basic = None, full = d\<rparr> \<Longrightarrow> getTemplateDir t Basic True = d"
  by (simp add: getTemplateDir_def)

text \<open>
  C7: for every template descriptor, selected variant and monorepo choice, the resolved
  directory follows the fallback rule: if monorepo was chosen and the descriptor defines a
  monorepo mapping, it is the monorepo mapping's directory for the variant, or the
  mapping's \<open>full\<close> directory when that variant key is absent; otherwise it is the variant
  mapping's directory for the variant, or its \<open>full\<close> directory when the key is absent.
  The resolution never fails. The descriptors are those whose \<open>basic\<close> directories are
  named, which every descriptor of \<open>TEMPLATES\<close> is.
\<close>

theorem C7_getTemplateDir_follows_rule:
  assumes "t \<in> set TEMPLATES \<or> basicDirsNamed t"
  shows "getTemplateDir t v um =
           (if um \<and> monorepo t \<noteq> None
            then (case variantDir (the (monorepo t)) v of
                    Some d \<Rightarrow> d
                  | None \<Rightarrow> full (the (monorepo t)))
            else (case variantDir (variants t) v of
                    Some d \<Rightarrow> d
                  | None \<Rightarrow> full (variants t)))"
proof -
  have n: "basicDirsNamed t" using assms TEMPLATES_basicDirsNamed by blast
  have "getTemplateDir t v um = spec_templateDir t v um"
    using n by (rule getTemplateDir_spec_named)
  also have "\<dots> = (if um \<and> monorepo t \<noteq> None
            then (case variantDir (the (monorepo t)) v of
                    Some d \<Rightarrow> d
                  | None \<Rightarrow> full (the (monorepo t)))
            else (case variantDir (variants t) v of
                    Some d \<Rightarrow> d
                  | None \<Rightarrow> full (variants t)))"
    by (cases um; cases "monorepo t")
       (auto simp: spec_templateDir_def spec_lookup_def chosenMapping_def split: option.splits)
  finally show ?thesis .
qed

theorem C7_getTemplateDir_follows_rule_witness:
  "TEMPLATES ! 0 \<in> set TEMPLATES \<and> TEMPLATES ! 1 \<in> set TEMPLATES
   \<and> getTemplateDir (TEMPLATES ! 0) Basic True = ''ts-lib-monorepo-basic''
   \<and> getTemplateDir (TEMPLATES ! 0) Full True = ''ts-lib-monorepo''
   \<and> getTemplateDir (TEMPLATES ! 0) Basic False = ''ts-lib-basic''
   \<and> getTemplateDir (TEMPLATES ! 0) Full False = ''ts-lib''
   \<and> getTemplateDir (TEMPLATES ! 1) Basic True = ''react-lib-basic''
   \<and> getTemplateDir (TEMPLATES ! 1) Full True = ''react-lib''
   \<and> getTemplateDir (TEMPLATES ! 1) Basic False = ''react-lib-basic''
   \<and> getTemplateDir (TEMPLATES ! 1) Full False = ''react-lib''"
proof -
  have a: "TEMPLATES ! 0 \<in> set TEMPLATES" and b: "TEMPLATES ! 1 \<in> set TEMPLATES"
    by (simp_all add: TEMPLATES_def)
  have a': "TEMPLATES ! 0 \<in> set TEMPLATES \<or> basicDirsNamed (TEMPLATES ! 0)" using a by simp
  have b': "TEMPLATES ! 1 \<in> set TEMPLATES \<or> basicDirsNamed (TEMPLATES ! 1)" using b by simp
  show ?thesis
    using a b
      C7_getTemplateDir_follows_rule[OF a', of Basic True]
      C7_getTemplateDir_follows_rule[OF a', of Full True]
      C7_getTemplateDir_follows_rule[OF a', of Basic False]
      C7_getTemplateDir_follows_rule[OF a', of Full False]
      C7_getTemplateDir_follows_rule[OF b', of Basic True]
      C7_getTemplateDir_follows_rule[OF b', of Full True]
      C7_getTemplateDir_follows_rule[OF b', of Basic False]
      C7_getTemplateDir_follows_rule[OF b', of Full False]
    by (simp add: TEMPLATES_def)
qed

subsection \<open>The script entries\<close>

text \<open>
  C6, as stated, fails: the workspace-mode pair and the single-package pair are not
  textually distinct; both functions return the same two entries.
\<close>

theorem C6_counterexample:
  "\<not> (createWorkspaceBuildScripts \<noteq> createBuildScripts)"
  by (simp add: createWorkspaceBuildScripts_def createBuildScripts_def)

text \<open>
  C6 (amended): the pair of script entries to install is a constant of each mode, and the
  two modes install the same pair: \<open>build\<close> is \<open>bunup\<close> and \<open>dev\<close> is \<open>bunup --watch\<close>,
  in that key order.
\<close>

theorem C6_scripts_same_for_both_modes:
  "scriptsForMode w = [(''build'', ''bunup''), (''dev'', ''bunup --watch'')]"
  by (simp add: scriptsForMode_def createWorkspaceBuildScripts_def createBuildScripts_def)

end
